theory Spec2Isabelle
  imports Main
begin

section \<open>Errors and outcomes\<close>

text \<open>
  A Go \<open>error\<close> value that is not nil is a \<open>goerror\<close>: either a fresh error
  (\<open>errors.New\<close>, or an error handed back by a library) or an error wrapped with a message
  (\<open>errors.Wrap\<close>, \<open>errors.Wrapf\<close>), which keeps the cause. The nil error is \<open>None\<close>.
\<close>

datatype goerror = New string | Wrap goerror string

text \<open>\<open>errors.Wrap\<close> returns nil when the error it is given is nil.\<close>

definition errors_Wrap :: "goerror option \<Rightarrow> string \<Rightarrow> goerror option" where
  "errors_Wrap err msg = (case err of None \<Rightarrow> None | Some e \<Rightarrow> Some (Wrap e msg))"

text \<open>
  A call either returns an error value (nil or not) or panics (a nil pointer is
  dereferenced); a panic is not recovered anywhere in the package.
\<close>

datatype outcome = Returned "goerror option" | Panicked

section \<open>Data model\<close>

text \<open>\<open>command.Process\<close>. A nil slice of environment variables is \<open>None\<close>.\<close>

record Process =
  WorkingDirectory :: string
  EnvironmentVariables :: "string list option"
  Command :: string
  Arguments :: "string list"

text \<open>\<open>aws.Credentials\<close>, the three fields the builder reads.\<close>

record Credentials =
  AccessKeyID :: string
  SecretAccessKey :: string
  SessionToken :: string

text \<open>
  The mutable fields of \<open>Builder\<close>. Its function-valued fields (\<open>sm\<close>, \<open>sts\<close>, \<open>run\<close>,
  \<open>pipe\<close>) are the outside world, below.
\<close>

record Builder =
  githubToken :: string
  awsCreds :: Credentials
  awsAccountID :: string
  PrimaryAWSRegion :: string

record BuildIdentification =
  Repository :: string
  Commit :: string
  Directory :: string

text \<open>
  The build configurations, without their \<open>Triggers\<close>, which the builder never reads.
  \<open>IncludePaths\<close> and \<open>ExcludePaths\<close> are slices that the builder compares with nil.
\<close>

record DockerImageConfig =
  DockerfilePath :: string
  Context :: string

record LambdaBundleConfig =
  Runtime :: string
  BuildCommand :: string
  IncludePaths :: "string list option"
  ExcludePaths :: "string list option"

text \<open>
  \<open>Builds\<close> holds slices of pointers: an element may be the nil pointer (\<open>None\<close>).
\<close>

record Builds =
  DockerImages :: "DockerImageConfig option list"
  LambdaBundles :: "LambdaBundleConfig option list"

section \<open>The outside world\<close>

text \<open>
  Every call that leaves the package is an event. The execution state is the builder
  together with the events so far, oldest first.
\<close>

datatype event =
    EvGetSecretValue string
  | EvLoadDefaultConfig
  | EvRetrieve
  | EvGetCallerIdentity
  | EvRun Process
  | EvPipe Process Process

record exec =
  bld :: Builder
  trace :: "event list"

text \<open>
  The three functions that \<open>loadCreds\<close> starts as goroutines, and the six orders in which
  they can run to completion.
\<close>

datatype fetch = GitHubToken | AWSCredentials | AWSCaller

datatype completion_order = GAC | GCA | AGC | ACG | CGA | CAG

fun order_of :: "completion_order \<Rightarrow> fetch list" where
  "order_of GAC = [GitHubToken, AWSCredentials, AWSCaller]"
| "order_of GCA = [GitHubToken, AWSCaller, AWSCredentials]"
| "order_of AGC = [AWSCredentials, GitHubToken, AWSCaller]"
| "order_of ACG = [AWSCredentials, AWSCaller, GitHubToken]"
| "order_of CGA = [AWSCaller, GitHubToken, AWSCredentials]"
| "order_of CAG = [AWSCaller, AWSCredentials, GitHubToken]"

text \<open>
  What the world answers may depend on everything that happened before, so each answer
  is a function of the events so far. \<open>SecretString\<close> and \<open>Account\<close> are pointers in the
  SDK's outputs and may be nil. \<open>filepath_Join\<close> is the standard library's function.
\<close>

record world =
  sm_GetSecretValue :: "event list \<Rightarrow> string \<Rightarrow> goerror + string option"
  config_LoadDefaultConfig :: "event list \<Rightarrow> goerror + unit"
  Credentials_Retrieve :: "event list \<Rightarrow> goerror + Credentials"
  sts_GetCallerIdentity :: "event list \<Rightarrow> goerror + string option"
  b_run :: "event list \<Rightarrow> Process \<Rightarrow> goerror option"
  b_pipe :: "event list \<Rightarrow> Process \<Rightarrow> Process \<Rightarrow> goerror option"
  schedule :: "event list \<Rightarrow> completion_order"
  filepath_Join :: "string \<Rightarrow> string \<Rightarrow> string"

definition log_event :: "event \<Rightarrow> exec \<Rightarrow> exec" where
  "log_event ev s = s\<lparr>trace := trace s @ [ev]\<rparr>"

definition call_run :: "world \<Rightarrow> Process \<Rightarrow> exec \<Rightarrow> goerror option \<times> exec" where
  "call_run w p s = (b_run w (trace s) p, log_event (EvRun p) s)"

definition call_pipe :: "world \<Rightarrow> Process \<Rightarrow> Process \<Rightarrow> exec \<Rightarrow> goerror option \<times> exec" where
  "call_pipe w src dst s = (b_pipe w (trace s) src dst, log_event (EvPipe src dst) s)"

section \<open>Loading credentials\<close>

definition secrets_Token :: string where
  "secrets_Token = ''aws-basics/github-app/token''"

definition loadGitHubCreds :: "world \<Rightarrow> exec \<Rightarrow> outcome \<times> exec" where
  "loadGitHubCreds w s =
     (let s1 = log_event (EvGetSecretValue secrets_Token) s in
      case sm_GetSecretValue w (trace s) secrets_Token of
        Inl err \<Rightarrow>
          (Returned (Some (Wrap err ''failed to retrieve token from AWS Secrets Manager'')), s1)
      | Inr None \<Rightarrow> (Panicked, s1)
      | Inr (Some v) \<Rightarrow> (Returned None, s1\<lparr>bld := (bld s1)\<lparr>githubToken := v\<rparr>\<rparr>))"

definition loadAWSCreds :: "world \<Rightarrow> exec \<Rightarrow> outcome \<times> exec" where
  "loadAWSCreds w s =
     (let s1 = log_event EvLoadDefaultConfig s in
      case config_LoadDefaultConfig w (trace s) of
        Inl err \<Rightarrow> (Returned (Some (Wrap err ''failed to load AWS configuration'')), s1)
      | Inr cfg \<Rightarrow>
          (let s2 = log_event EvRetrieve s1 in
           case Credentials_Retrieve w (trace s1) of
             Inl err \<Rightarrow> (Returned (Some (Wrap err ''failed to acquire AWS credentials'')), s2)
           | Inr creds \<Rightarrow> (Returned None, s2\<lparr>bld := (bld s2)\<lparr>awsCreds := creds\<rparr>\<rparr>)))"

definition lookupAWSCaller :: "world \<Rightarrow> exec \<Rightarrow> outcome \<times> exec" where
  "lookupAWSCaller w s =
     (let s1 = log_event EvGetCallerIdentity s in
      case sts_GetCallerIdentity w (trace s) of
        Inl err \<Rightarrow> (Returned (Some (Wrap err ''failed to get AWS identity'')), s1)
      | Inr None \<Rightarrow> (Panicked, s1)
      | Inr (Some v) \<Rightarrow> (Returned None, s1\<lparr>bld := (bld s1)\<lparr>awsAccountID := v\<rparr>\<rparr>))"

fun goroutine :: "world \<Rightarrow> fetch \<Rightarrow> exec \<Rightarrow> outcome \<times> exec" where
  "goroutine w GitHubToken s = loadGitHubCreds w s"
| "goroutine w AWSCredentials s = loadAWSCreds w s"
| "goroutine w AWSCaller s = lookupAWSCaller w s"

text \<open>
  \<open>errgroup.Group\<close> (golang.org/x/sync): \<open>Go\<close> starts each function in its own goroutine,
  \<open>Wait\<close> blocks until all of them have returned and then returns the first error that
  was recorded, if any. The three functions write different fields of the builder, so a
  run of the group is determined by the order in which they complete; a panic in one of
  them ends the program.
\<close>

fun errgroup_run :: "world \<Rightarrow> fetch list \<Rightarrow> exec \<Rightarrow> (fetch \<times> outcome) list \<times> exec" where
  "errgroup_run w [] s = ([], s)"
| "errgroup_run w (f # fs) s =
     (case goroutine w f s of
        (Panicked, s1) \<Rightarrow> ([(f, Panicked)], s1)
      | (Returned r, s1) \<Rightarrow>
          (case errgroup_run w fs s1 of (rs, s2) \<Rightarrow> ((f, Returned r) # rs, s2)))"

fun errgroup_Wait :: "(fetch \<times> outcome) list \<Rightarrow> outcome" where
  "errgroup_Wait [] = Returned None"
| "errgroup_Wait ((f, Panicked) # rs) = Panicked"
| "errgroup_Wait ((f, Returned None) # rs) = errgroup_Wait rs"
| "errgroup_Wait ((f, Returned (Some e)) # rs) =
     (case errgroup_Wait rs of Panicked \<Rightarrow> Panicked | Returned r \<Rightarrow> Returned (Some e))"

text \<open>The outcome of each of the three fetches of one call of \<open>loadCreds\<close>, as completed.\<close>

definition fetch_results :: "world \<Rightarrow> exec \<Rightarrow> (fetch \<times> outcome) list" where
  "fetch_results w s = fst (errgroup_run w (order_of (schedule w (trace s))) s)"

definition loadCreds :: "world \<Rightarrow> exec \<Rightarrow> outcome \<times> exec" where
  "loadCreds w s =
     (case errgroup_run w (order_of (schedule w (trace s))) s of
        (rs, s1) \<Rightarrow> (errgroup_Wait rs, s1))"

section \<open>Formatting and splitting strings\<close>

text \<open>\<open>%v\<close> of a slice index: the decimal digits of a natural number.\<close>

definition digit :: "nat \<Rightarrow> char" where
  "digit n = ''0123456789'' ! n"

function itoa :: "nat \<Rightarrow> string" where
  "itoa n = (if n < 10 then [digit n] else itoa (n div 10) @ [digit (n mod 10)])"
  by pat_completeness auto
termination
  by (relation "measure (\<lambda>n. n)") auto

declare itoa.simps [simp del]

text \<open>
  \<open>strings.Split(s, " ")\<close>: the pieces of \<open>s\<close> between consecutive space characters.
  There is always at least one piece, and a piece may be empty.
\<close>

fun strings_Split_space :: "string \<Rightarrow> string list" where
  "strings_Split_space [] = [[]]"
| "strings_Split_space (c # cs) =
     (if c = CHR '' '' then [] # strings_Split_space cs
      else (case strings_Split_space cs of
              [] \<Rightarrow> [[c]]
            | t # ts \<Rightarrow> (c # t) # ts))"

text \<open>\<open>strings.Join(xs, " ")\<close>.\<close>

fun strings_Join_space :: "string list \<Rightarrow> string" where
  "strings_Join_space [] = []"
| "strings_Join_space [x] = x"
| "strings_Join_space (x # y # ys) = x @ '' '' @ strings_Join_space (y # ys)"

section \<open>Building one Lambda bundle\<close>

text \<open>The environment variables that carry the credentials of the builder.\<close>

definition cred_env :: "Builder \<Rightarrow> string list" where
  "cred_env b =
     [''AWS_ACCESS_KEY_ID='' @ AccessKeyID (awsCreds b),
      ''AWS_SECRET_ACCESS_KEY='' @ SecretAccessKey (awsCreds b),
      ''AWS_SESSION_TOKEN='' @ SessionToken (awsCreds b),
      ''GITHUB_ACCESS_TOKEN='' @ githubToken b]"

text \<open>
  The process of the configured build command. \<open>split[0]\<close> panics on an empty slice,
  hence the result is \<open>None\<close> there.
\<close>

definition build_process ::
  "Builder \<Rightarrow> BuildIdentification \<Rightarrow> LambdaBundleConfig \<Rightarrow> Process option" where
  "build_process b ident config =
     (case strings_Split_space (BuildCommand config) of
        [] \<Rightarrow> None
      | c # args \<Rightarrow>
          Some \<lparr>WorkingDirectory = Directory ident,
                EnvironmentVariables = Some (cred_env b),
                Command = c,
                Arguments = args\<rparr>)"

definition zipfile :: "BuildIdentification \<Rightarrow> string" where
  "zipfile ident = Commit ident @ ''.zip''"

text \<open>The process that the \<open>switch\<close> on the runtime runs; \<open>None\<close> in its default case.\<close>

definition archive_process :: "BuildIdentification \<Rightarrow> LambdaBundleConfig \<Rightarrow> Process option" where
  "archive_process ident config =
     (if Runtime config = ''go1.x'' then
        Some \<lparr>WorkingDirectory = ''dist'',
              EnvironmentVariables = None,
              Command = ''zip'',
              Arguments = [''../'' @ zipfile ident, ''*'']\<rparr>
      else if Runtime config = ''nodejs14.x'' then
        Some \<lparr>WorkingDirectory = [],
              EnvironmentVariables = None,
              Command = ''zip'',
              Arguments =
                [zipfile ident, ''*'']
                @ (case IncludePaths config of
                     None \<Rightarrow> []
                   | Some ps \<Rightarrow> [''-i''] @ ps @ [''node_modules''])
                @ (case ExcludePaths config of
                     None \<Rightarrow> []
                   | Some ps \<Rightarrow> [''-x''] @ ps)\<rparr>
      else None)"

definition upload_process :: "Builder \<Rightarrow> BuildIdentification \<Rightarrow> Process" where
  "upload_process b ident =
     \<lparr>WorkingDirectory = [],
      EnvironmentVariables = None,
      Command = ''aws'',
      Arguments =
        [''s3'', ''cp'', zipfile ident,
         ''s3://artifacts-'' @ awsAccountID b @ ''-'' @ PrimaryAWSRegion b @ ''/''
           @ Repository ident @ ''/'' @ zipfile ident]\<rparr>"

text \<open>The part of \<open>LambdaBundle\<close> after the build command has run: archive, upload.\<close>

definition archive_and_upload ::
  "world \<Rightarrow> BuildIdentification \<Rightarrow> LambdaBundleConfig \<Rightarrow> exec \<Rightarrow> outcome \<times> exec" where
  "archive_and_upload w ident config s =
     (case archive_process ident config of
        None \<Rightarrow> (Returned (Some (New (''unknown runtime '' @ Runtime config))), s)
      | Some z \<Rightarrow>
          (case call_run w z s of
             (Some err, s1) \<Rightarrow> (Returned (Some (Wrap err ''failed to create zip archive'')), s1)
           | (None, s1) \<Rightarrow>
               (case call_run w (upload_process (bld s1) ident) s1 of
                  (r, s2) \<Rightarrow> (Returned (errors_Wrap r ''failed upload to S3''), s2))))"

text \<open>The part of \<open>LambdaBundle\<close> after the credentials have been loaded.\<close>

definition bundle_steps ::
  "world \<Rightarrow> BuildIdentification \<Rightarrow> LambdaBundleConfig option \<Rightarrow> exec \<Rightarrow> outcome \<times> exec" where
  "bundle_steps w ident config s =
     (case config of
        None \<Rightarrow> (Panicked, s)
      | Some cfg \<Rightarrow>
          (case build_process (bld s) ident cfg of
             None \<Rightarrow> (Panicked, s)
           | Some p \<Rightarrow>
               (case call_run w p s of
                  (Some err, s1) \<Rightarrow>
                    (Returned (Some (Wrap err
                       (''failed to run '' @ [CHR 0x22] @ BuildCommand cfg @ [CHR 0x22]))), s1)
                | (None, s1) \<Rightarrow> archive_and_upload w ident cfg s1)))"

definition LambdaBundle ::
  "world \<Rightarrow> BuildIdentification \<Rightarrow> LambdaBundleConfig option \<Rightarrow> exec \<Rightarrow> outcome \<times> exec" where
  "LambdaBundle w ident config s =
     (case loadCreds w s of
        (Panicked, s1) \<Rightarrow> (Panicked, s1)
      | (Returned (Some err), s1) \<Rightarrow>
          (Returned (Some (Wrap err ''failed to load external credentials'')), s1)
      | (Returned None, s1) \<Rightarrow> bundle_steps w ident config s1)"

section \<open>Building one Docker image\<close>

definition registry :: "Builder \<Rightarrow> string" where
  "registry b = awsAccountID b @ ''.dkr.ecr.'' @ PrimaryAWSRegion b @ ''.amazonaws.com''"

definition ecrLogin :: "world \<Rightarrow> exec \<Rightarrow> goerror option \<times> exec" where
  "ecrLogin w s =
     (case call_pipe w
        \<lparr>WorkingDirectory = [], EnvironmentVariables = None,
         Command = ''aws'', Arguments = [''ecr'', ''get-login-password'']\<rparr>
        \<lparr>WorkingDirectory = [], EnvironmentVariables = None,
         Command = ''docker'',
         Arguments = [''login'', ''--username'', ''AWS'', ''--password-stdin'', registry (bld s)]\<rparr>
        s of
        (r, s1) \<Rightarrow> (errors_Wrap r ''failed to log into ecr'', s1))"

definition docker_build_process ::
  "world \<Rightarrow> Builder \<Rightarrow> BuildIdentification \<Rightarrow> DockerImageConfig \<Rightarrow> Process" where
  "docker_build_process w b ident config =
     \<lparr>WorkingDirectory = Directory ident,
      EnvironmentVariables = Some (cred_env b),
      Command = ''docker'',
      Arguments =
        [''build'',
         ''--build-arg'', ''AWS_ACCESS_KEY_ID=${AWS_ACCESS_KEY_ID}'',
         ''--build-arg'', ''AWS_SECRET_ACCESS_KEY=${AWS_SECRET_ACCESS_KEY}'',
         ''--build-arg'', ''AWS_SESSION_TOKEN=${AWS_SESSION_TOKEN}'',
         ''--build-arg'', ''GITHUB_ACCESS_TOKEN=${GITHUB_ACCESS_TOKEN}'',
         ''--tag'', registry b @ ''/'' @ Repository ident,
         filepath_Join w (Directory ident) (DockerfilePath config),
         filepath_Join w (Directory ident) (Context config)]\<rparr>"

definition docker_push_process :: "Builder \<Rightarrow> BuildIdentification \<Rightarrow> Process" where
  "docker_push_process b ident =
     \<lparr>WorkingDirectory = Directory ident,
      EnvironmentVariables = None,
      Command = ''docker'',
      Arguments = [''push'', registry b @ ''/'' @ Repository ident]\<rparr>"

text \<open>The part of \<open>DockerImage\<close> after the credentials have been loaded.\<close>

definition image_steps ::
  "world \<Rightarrow> BuildIdentification \<Rightarrow> DockerImageConfig option \<Rightarrow> exec \<Rightarrow> outcome \<times> exec" where
  "image_steps w ident config s =
     (case ecrLogin w s of
        (Some err, s1) \<Rightarrow> (Returned (Some (Wrap err [])), s1)
      | (None, s1) \<Rightarrow>
          (case config of
             None \<Rightarrow> (Panicked, s1)
           | Some cfg \<Rightarrow>
               (case call_run w (docker_build_process w (bld s1) ident cfg) s1 of
                  (Some err, s2) \<Rightarrow> (Returned (Some (Wrap err ''docker build failed'')), s2)
                | (None, s2) \<Rightarrow>
                    (case call_run w (docker_push_process (bld s2) ident) s2 of
                       (Some err, s3) \<Rightarrow> (Returned (Some (Wrap err ''docker push failed'')), s3)
                     | (None, s3) \<Rightarrow> (Returned None, s3)))))"

definition DockerImage ::
  "world \<Rightarrow> BuildIdentification \<Rightarrow> DockerImageConfig option \<Rightarrow> exec \<Rightarrow> outcome \<times> exec" where
  "DockerImage w ident config s =
     (case loadCreds w s of
        (Panicked, s1) \<Rightarrow> (Panicked, s1)
      | (Returned (Some err), s1) \<Rightarrow>
          (Returned (Some (Wrap err ''failed to load external credentials'')), s1)
      | (Returned None, s1) \<Rightarrow> image_steps w ident config s1)"

section \<open>Building everything\<close>

text \<open>The two loops of \<open>BuildAll\<close>; \<open>i\<close> is the index of the head of the list.\<close>

fun bundles_loop ::
  "world \<Rightarrow> BuildIdentification \<Rightarrow> nat \<Rightarrow> LambdaBundleConfig option list \<Rightarrow> exec
     \<Rightarrow> outcome \<times> exec" where
  "bundles_loop w ident i [] s = (Returned None, s)"
| "bundles_loop w ident i (config # rest) s =
     (case LambdaBundle w ident config s of
        (Panicked, s1) \<Rightarrow> (Panicked, s1)
      | (Returned (Some err), s1) \<Rightarrow>
          (Returned (Some (Wrap err (''build failed for lambda bundle '' @ itoa i))), s1)
      | (Returned None, s1) \<Rightarrow> bundles_loop w ident (Suc i) rest s1)"

fun images_loop ::
  "world \<Rightarrow> BuildIdentification \<Rightarrow> nat \<Rightarrow> DockerImageConfig option list \<Rightarrow> exec
     \<Rightarrow> outcome \<times> exec" where
  "images_loop w ident i [] s = (Returned None, s)"
| "images_loop w ident i (config # rest) s =
     (case DockerImage w ident config s of
        (Panicked, s1) \<Rightarrow> (Panicked, s1)
      | (Returned (Some err), s1) \<Rightarrow>
          (Returned (Some (Wrap err (''build failed for lambda bundle '' @ itoa i))), s1)
      | (Returned None, s1) \<Rightarrow> images_loop w ident (Suc i) rest s1)"

text \<open>\<open>builds\<close> is a pointer: reading a field of the nil pointer panics.\<close>

definition BuildAll ::
  "world \<Rightarrow> BuildIdentification \<Rightarrow> Builds option \<Rightarrow> exec \<Rightarrow> outcome \<times> exec" where
  "BuildAll w ident builds s =
     (case builds of
        None \<Rightarrow> (Panicked, s)
      | Some bs \<Rightarrow>
          (case bundles_loop w ident 0 (LambdaBundles bs) s of
             (Returned None, s1) \<Rightarrow> images_loop w ident 0 (DockerImages bs) s1
           | (r, s1) \<Rightarrow> (r, s1)))"

section \<open>Reading the configuration file\<close>

text \<open>
  \<open>Read\<close>, over the three library functions it calls: \<open>filepath.Join\<close>, \<open>os.ReadFile\<close>
  (an error or the bytes of the file) and \<open>yaml.Unmarshal\<close> into a fresh \<open>Builds\<close> (an
  error or the value decoded). The result is the pair that \<open>Read\<close> returns.
\<close>

definition deserialize :: "(string \<Rightarrow> goerror + Builds) \<Rightarrow> string \<Rightarrow> goerror + Builds" where
  "deserialize yaml_Unmarshal yml =
     (case yaml_Unmarshal yml of
        Inl err \<Rightarrow> Inl (Wrap err ''deserialzation failure'')
      | Inr b \<Rightarrow> Inr b)"

definition Read ::
  "(string \<Rightarrow> string \<Rightarrow> string) \<Rightarrow> (string \<Rightarrow> goerror + string) \<Rightarrow> (string \<Rightarrow> goerror + Builds)
     \<Rightarrow> string \<Rightarrow> Builds option \<times> goerror option" where
  "Read join os_ReadFile yaml_Unmarshal dir =
     (case os_ReadFile (join dir ''builds.yaml'') of
        Inl err \<Rightarrow> (None, None)
      | Inr yml \<Rightarrow>
          (case deserialize yaml_Unmarshal yml of
             Inl err \<Rightarrow> (None, Some (Wrap err ''failed to parse builds.yaml''))
           | Inr builds \<Rightarrow> (Some builds, None)))"

section \<open>Notions used to state the properties\<close>

text \<open>
  The task set in the order of the specification: the function bundles by index, then
  the container images by index.
\<close>

datatype task = Bundle "LambdaBundleConfig option" | Image "DockerImageConfig option"

definition tasks :: "Builds \<Rightarrow> task list" where
  "tasks bs = map Bundle (LambdaBundles bs) @ map Image (DockerImages bs)"

fun exec_task :: "world \<Rightarrow> BuildIdentification \<Rightarrow> task \<Rightarrow> exec \<Rightarrow> outcome \<times> exec" where
  "exec_task w ident (Bundle config) s = LambdaBundle w ident config s"
| "exec_task w ident (Image config) s = DockerImage w ident config s"

text \<open>
  Executing the tasks of a list one after the other: the state reached when every one
  of them returned nil, \<open>None\<close> as soon as one of them did not.
\<close>

fun run_ok :: "world \<Rightarrow> BuildIdentification \<Rightarrow> task list \<Rightarrow> exec \<Rightarrow> exec option" where
  "run_ok w ident [] s = Some s"
| "run_ok w ident (t # ts) s =
     (case exec_task w ident t s of
        (Returned None, s1) \<Rightarrow> run_ok w ident ts s1
      | (r, s1) \<Rightarrow> None)"

text \<open>Events that start external processes, as opposed to fetches of credentials.\<close>

fun is_command :: "event \<Rightarrow> bool" where
  "is_command (EvRun p) = True"
| "is_command (EvPipe src dst) = True"
| "is_command ev = False"

text \<open>The environment variables that an event hands to a process, if it sets any.\<close>

fun event_env :: "event \<Rightarrow> string list list" where
  "event_env (EvRun p) = (case EnvironmentVariables p of None \<Rightarrow> [] | Some env \<Rightarrow> [env])"
| "event_env (EvPipe src dst) =
     (case EnvironmentVariables src of None \<Rightarrow> [] | Some env \<Rightarrow> [env])
     @ (case EnvironmentVariables dst of None \<Rightarrow> [] | Some env \<Rightarrow> [env])"
| "event_env ev = []"

text \<open>
  Tokenizing by whitespace, in the words of the specification: the maximal runs of
  characters that are not whitespace. \<open>split_where\<close> cuts a string at every character
  that satisfies the predicate.
\<close>

definition is_whitespace :: "char \<Rightarrow> bool" where
  "is_whitespace c \<longleftrightarrow>
     c = CHR '' '' \<or> c = CHR 0x09 \<or> c = CHR 0x0A \<or> c = CHR 0x0B \<or> c = CHR 0x0C \<or> c = CHR 0x0D"

fun split_where :: "(char \<Rightarrow> bool) \<Rightarrow> string \<Rightarrow> string list" where
  "split_where P [] = [[]]"
| "split_where P (c # cs) =
     (if P c then [] # split_where P cs
      else (case split_where P cs of
              [] \<Rightarrow> [[c]]
            | t # ts \<Rightarrow> (c # t) # ts))"

definition whitespace_tokens :: "string \<Rightarrow> string list" where
  "whitespace_tokens s = filter (\<lambda>t. t \<noteq> []) (split_where is_whitespace s)"

text \<open>
  What it means for the credentials of a builder to come from one load. \<open>fetch_call\<close>
  is the call whose answer a fetch installs, \<open>fetch_answer\<close> says that the world's answer
  to that call, at a given history, is the value the builder now holds, and \<open>answered\<close>
  looks for the call among the events that follow a history. The credentials are fresh
  when each of the three fields holds the answer to a call made among those events.
\<close>

fun fetch_call :: "fetch \<Rightarrow> event" where
  "fetch_call GitHubToken = EvGetSecretValue secrets_Token"
| "fetch_call AWSCredentials = EvRetrieve"
| "fetch_call AWSCaller = EvGetCallerIdentity"

fun fetch_answer :: "world \<Rightarrow> Builder \<Rightarrow> fetch \<Rightarrow> event list \<Rightarrow> bool" where
  "fetch_answer w b GitHubToken tr \<longleftrightarrow>
     sm_GetSecretValue w tr secrets_Token = Inr (Some (githubToken b))"
| "fetch_answer w b AWSCredentials tr \<longleftrightarrow> Credentials_Retrieve w tr = Inr (awsCreds b)"
| "fetch_answer w b AWSCaller tr \<longleftrightarrow>
     sts_GetCallerIdentity w tr = Inr (Some (awsAccountID b))"

fun answered :: "(event list \<Rightarrow> bool) \<Rightarrow> event \<Rightarrow> event list \<Rightarrow> event list \<Rightarrow> bool" where
  "answered ok ev tr [] \<longleftrightarrow> False"
| "answered ok ev tr (e # es) \<longleftrightarrow> (e = ev \<and> ok tr) \<or> answered ok ev (tr @ [e]) es"

definition fresh_credentials :: "world \<Rightarrow> Builder \<Rightarrow> event list \<Rightarrow> event list \<Rightarrow> bool" where
  "fresh_credentials w b tr evs \<longleftrightarrow>
     answered (fetch_answer w b GitHubToken) (fetch_call GitHubToken) tr evs
     \<and> answered (fetch_answer w b AWSCredentials) (fetch_call AWSCredentials) tr evs
     \<and> answered (fetch_answer w b AWSCaller) (fetch_call AWSCaller) tr evs"

section \<open>Example inputs\<close>

text \<open>
  A world in which every fetch succeeds and a process fails exactly when its command
  is \<open>false\<close>.
\<close>

definition example_world :: world where
  "example_world =
     \<lparr>sm_GetSecretValue = (\<lambda>tr k. Inr (Some ''ghs_token'')),
      config_LoadDefaultConfig = (\<lambda>tr. Inr ()),
      Credentials_Retrieve =
        (\<lambda>tr. Inr \<lparr>AccessKeyID = ''AKIA'', SecretAccessKey = ''secret'', SessionToken = ''session''\<rparr>),
      sts_GetCallerIdentity = (\<lambda>tr. Inr (Some ''123456789012'')),
      b_run = (\<lambda>tr p. if Command p = ''false'' then Some (New ''exit status 1'') else None),
      b_pipe = (\<lambda>tr src dst. None),
      schedule = (\<lambda>tr. GAC),
      filepath_Join = (\<lambda>d f. d @ ''/'' @ f)\<rparr>"

definition example_ident :: BuildIdentification where
  "example_ident = \<lparr>Repository = ''org/app'', Commit = ''abc123'', Directory = ''/tmp/src''\<rparr>"

definition example_builder :: Builder where
  "example_builder =
     \<lparr>githubToken = [],
      awsCreds = \<lparr>AccessKeyID = [], SecretAccessKey = [], SessionToken = []\<rparr>,
      awsAccountID = [],
      PrimaryAWSRegion = ''us-east-1''\<rparr>"

definition example_exec :: exec where
  "example_exec = \<lparr>bld = example_builder, trace = []\<rparr>"

text \<open>The builder once the credentials of \<open>example_world\<close> are loaded.\<close>

definition loaded_builder :: Builder where
  "loaded_builder =
     \<lparr>githubToken = ''ghs_token'',
      awsCreds = \<lparr>AccessKeyID = ''AKIA'', SecretAccessKey = ''secret'', SessionToken = ''session''\<rparr>,
      awsAccountID = ''123456789012'',
      PrimaryAWSRegion = ''us-east-1''\<rparr>"

definition load_events :: "event list" where
  "load_events =
     [EvGetSecretValue ''aws-basics/github-app/token'', EvLoadDefaultConfig, EvRetrieve,
      EvGetCallerIdentity]"

definition example_go :: LambdaBundleConfig where
  "example_go =
     \<lparr>Runtime = ''go1.x'', BuildCommand = ''make build'', IncludePaths = None,
      ExcludePaths = None\<rparr>"

definition example_failing :: LambdaBundleConfig where
  "example_failing =
     \<lparr>Runtime = ''go1.x'', BuildCommand = ''false'', IncludePaths = None, ExcludePaths = None\<rparr>"

definition example_unknown :: LambdaBundleConfig where
  "example_unknown =
     \<lparr>Runtime = ''unknown'', BuildCommand = ''make build'', IncludePaths = None,
      ExcludePaths = None\<rparr>"

definition example_image :: DockerImageConfig where
  "example_image = \<lparr>DockerfilePath = ''Dockerfile'', Context = ''.''\<rparr>"

definition example_builds :: Builds where
  "example_builds =
     \<lparr>DockerImages = [Some example_image],
      LambdaBundles = [Some example_go, Some example_failing]\<rparr>"

definition loaded_env :: "string list" where
  "loaded_env =
     [''AWS_ACCESS_KEY_ID=AKIA'', ''AWS_SECRET_ACCESS_KEY=secret'', ''AWS_SESSION_TOKEN=session'',
      ''GITHUB_ACCESS_TOKEN=ghs_token'']"

text \<open>The events of building \<open>example_go\<close> in \<open>example_world\<close>.\<close>

definition go_events :: "event list" where
  "go_events =
     load_events @
     [EvRun \<lparr>WorkingDirectory = ''/tmp/src'', EnvironmentVariables = Some loaded_env,
             Command = ''make'', Arguments = [''build'']\<rparr>,
      EvRun \<lparr>WorkingDirectory = ''dist'', EnvironmentVariables = None,
             Command = ''zip'', Arguments = [''../abc123.zip'', ''*'']\<rparr>,
      EvRun \<lparr>WorkingDirectory = [], EnvironmentVariables = None,
             Command = ''aws'',
             Arguments = [''s3'', ''cp'', ''abc123.zip'',
                          ''s3://artifacts-123456789012-us-east-1/org/app/abc123.zip'']\<rparr>]"

text \<open>The events of building \<open>example_failing\<close> in \<open>example_world\<close>.\<close>

definition failing_events :: "event list" where
  "failing_events =
     load_events @
     [EvRun \<lparr>WorkingDirectory = ''/tmp/src'', EnvironmentVariables = Some loaded_env,
             Command = ''false'', Arguments = []\<rparr>]"

section \<open>Properties\<close>

subsection \<open>An empty task set\<close>

text \<open>
  Claim C9. For a task set with no function-bundle task and no container-image task,
  \<open>BuildAll\<close> returns nil and leaves the execution state as it found it: the builder's
  credentials are untouched and no event is added to the trace, hence no credential is
  fetched and no external process is started.
\<close>

theorem BuildAll_no_tasks:
  "BuildAll w ident (Some \<lparr>DockerImages = [], LambdaBundles = []\<rparr>) s = (Returned None, s)"
  by (simp add: BuildAll_def)

subsection \<open>Reading a configuration file that cannot be read\<close>

text \<open>
  Claim C10. Whenever reading \<open>builds.yaml\<close> fails, whatever the error, \<open>Read\<close> returns no
  configuration and no error; \<open>Read\<close> returns an error exactly when the file was read and
  its content failed to parse, and the error is then the parser's, wrapped twice.
\<close>

theorem Read_unreadable_is_absent:
  "(\<forall>err. os_ReadFile (join dir ''builds.yaml'') = Inl err \<longrightarrow>
      Read join os_ReadFile yaml_Unmarshal dir = (None, None))
   \<and> (snd (Read join os_ReadFile yaml_Unmarshal dir) \<noteq> None \<longleftrightarrow>
        (\<exists>yml err. os_ReadFile (join dir ''builds.yaml'') = Inr yml \<and> yaml_Unmarshal yml = Inl err))
   \<and> (\<forall>yml err. os_ReadFile (join dir ''builds.yaml'') = Inr yml \<and> yaml_Unmarshal yml = Inl err \<longrightarrow>
        Read join os_ReadFile yaml_Unmarshal dir =
          (None, Some (Wrap (Wrap err ''deserialzation failure'') ''failed to parse builds.yaml'')))"
  by (auto simp: Read_def deserialize_def split: sum.splits)

theorem Read_unreadable_is_absent_witness:
  "Read (\<lambda>d f. d @ ''/'' @ f) (\<lambda>p. Inl (New ''permission denied'')) (\<lambda>yml. Inl (New ''bad yaml''))
     ''repo'' = (None, None)
   \<and> Read (\<lambda>d f. d @ ''/'' @ f) (\<lambda>p. Inr ''x'') (\<lambda>yml. Inl (New ''bad yaml'')) ''repo''
     = (None, Some (Wrap (Wrap (New ''bad yaml'') ''deserialzation failure'')
                      ''failed to parse builds.yaml''))"
  using
    Read_unreadable_is_absent [of "\<lambda>p. Inl (New ''permission denied'')" "\<lambda>d f. d @ ''/'' @ f"
      "''repo''" "\<lambda>yml. Inl (New ''bad yaml'')"]
    Read_unreadable_is_absent [of "\<lambda>p. Inr ''x''" "\<lambda>d f. d @ ''/'' @ f"
      "''repo''" "\<lambda>yml. Inl (New ''bad yaml'')"]
  by simp

subsection \<open>Evaluating the examples\<close>

lemma example_world_run:
  "b_run example_world tr p =
     (if Command p = ''false'' then Some (New ''exit status 1'') else None)"
  by (simp add: example_world_def)

lemma loadCreds_example:
  "loadCreds example_world \<lparr>bld = b, trace = tr\<rparr> =
     (Returned None,
      \<lparr>bld = b\<lparr>githubToken := ''ghs_token'',
                awsCreds := \<lparr>AccessKeyID = ''AKIA'', SecretAccessKey = ''secret'',
                             SessionToken = ''session''\<rparr>,
                awsAccountID := ''123456789012''\<rparr>,
       trace = tr @ load_events\<rparr>)"
  by (simp add: loadCreds_def example_world_def loadGitHubCreds_def loadAWSCreds_def
      lookupAWSCaller_def log_event_def secrets_Token_def load_events_def)

lemma loadCreds_example_any:
  "PrimaryAWSRegion b = ''us-east-1'' \<Longrightarrow>
   loadCreds example_world \<lparr>bld = b, trace = tr\<rparr> =
     (Returned None, \<lparr>bld = loaded_builder, trace = tr @ load_events\<rparr>)"
  by (cases b) (simp add: loadCreds_example loaded_builder_def)

lemma LambdaBundle_example_go:
  "PrimaryAWSRegion b = ''us-east-1'' \<Longrightarrow>
   LambdaBundle example_world example_ident (Some example_go) \<lparr>bld = b, trace = tr\<rparr> =
     (Returned None, \<lparr>bld = loaded_builder, trace = tr @ go_events\<rparr>)"
  by (simp add: LambdaBundle_def loadCreds_example_any bundle_steps_def build_process_def
      example_go_def example_ident_def cred_env_def call_run_def log_event_def
      archive_and_upload_def archive_process_def upload_process_def zipfile_def
      errors_Wrap_def go_events_def loaded_env_def example_world_run loaded_builder_def)

lemma LambdaBundle_example_failing:
  "PrimaryAWSRegion b = ''us-east-1'' \<Longrightarrow>
   LambdaBundle example_world example_ident (Some example_failing) \<lparr>bld = b, trace = tr\<rparr> =
     (Returned (Some (Wrap (New ''exit status 1'')
                        (''failed to run '' @ [CHR 0x22] @ ''false'' @ [CHR 0x22]))),
      \<lparr>bld = loaded_builder, trace = tr @ failing_events\<rparr>)"
  by (simp add: LambdaBundle_def loadCreds_example_any bundle_steps_def build_process_def
      example_failing_def example_ident_def cred_env_def call_run_def log_event_def
      failing_events_def loaded_env_def example_world_run loaded_builder_def)

lemma LambdaBundle_example_unknown:
  "PrimaryAWSRegion b = ''us-east-1'' \<Longrightarrow>
   LambdaBundle example_world example_ident (Some example_unknown) \<lparr>bld = b, trace = tr\<rparr> =
     (Returned (Some (New ''unknown runtime unknown'')),
      \<lparr>bld = loaded_builder,
       trace = tr @ load_events @
         [EvRun \<lparr>WorkingDirectory = ''/tmp/src'', EnvironmentVariables = Some loaded_env,
                 Command = ''make'', Arguments = [''build'']\<rparr>]\<rparr>)"
  by (simp add: LambdaBundle_def loadCreds_example_any bundle_steps_def build_process_def
      example_unknown_def example_ident_def cred_env_def call_run_def log_event_def
      archive_and_upload_def archive_process_def loaded_env_def example_world_run
      loaded_builder_def)

lemma tasks_example:
  "tasks example_builds =
     [Bundle (Some example_go), Bundle (Some example_failing), Image (Some example_image)]"
  by (simp add: tasks_def example_builds_def)

lemma example_regions:
  "PrimaryAWSRegion example_builder = ''us-east-1''"
  "PrimaryAWSRegion loaded_builder = ''us-east-1''"
  by (simp_all add: example_builder_def loaded_builder_def)

subsection \<open>The two loops as one pass over the task set\<close>

lemma run_ok_append:
  "run_ok w ident (xs @ ys) s =
     (case run_ok w ident xs s of None \<Rightarrow> None | Some s1 \<Rightarrow> run_ok w ident ys s1)"
  by (induction xs arbitrary: s) (auto split: prod.splits outcome.splits option.splits)

lemma bundles_loop_ok:
  "run_ok w ident (map Bundle cs) s = Some s' \<Longrightarrow>
   bundles_loop w ident i cs s = (Returned None, s')"
  by (induction cs arbitrary: s i) (auto split: prod.splits outcome.splits option.splits)

lemma images_loop_ok:
  "run_ok w ident (map Image cs) s = Some s' \<Longrightarrow>
   images_loop w ident i cs s = (Returned None, s')"
  by (induction cs arbitrary: s i) (auto split: prod.splits outcome.splits option.splits)

lemma bundles_loop_fail:
  "k < length cs \<Longrightarrow> run_ok w ident (take k (map Bundle cs)) s = Some sk \<Longrightarrow>
   LambdaBundle w ident (cs ! k) sk = (Returned (Some err), sk') \<Longrightarrow>
   bundles_loop w ident i cs s =
     (Returned (Some (Wrap err (''build failed for lambda bundle '' @ itoa (i + k)))), sk')"
proof (induction cs arbitrary: k i s)
  case Nil
  then show ?case by simp
next
  case (Cons c cs)
  show ?case
  proof (cases k)
    case 0
    with Cons.prems show ?thesis by simp
  next
    case (Suc j)
    with Cons.prems obtain s1 where
      c: "LambdaBundle w ident c s = (Returned None, s1)"
      and r: "run_ok w ident (take j (map Bundle cs)) s1 = Some sk"
      by (auto split: prod.splits outcome.splits option.splits)
    from Cons.prems Suc have "j < length cs"
      and "LambdaBundle w ident (cs ! j) sk = (Returned (Some err), sk')"
      by simp_all
    from Cons.IH [OF this(1) r this(2), of "Suc i"] c Suc show ?thesis by simp
  qed
qed

lemma images_loop_fail:
  "k < length cs \<Longrightarrow> run_ok w ident (take k (map Image cs)) s = Some sk \<Longrightarrow>
   DockerImage w ident (cs ! k) sk = (Returned (Some err), sk') \<Longrightarrow>
   images_loop w ident i cs s =
     (Returned (Some (Wrap err (''build failed for lambda bundle '' @ itoa (i + k)))), sk')"
proof (induction cs arbitrary: k i s)
  case Nil
  then show ?case by simp
next
  case (Cons c cs)
  show ?case
  proof (cases k)
    case 0
    with Cons.prems show ?thesis by simp
  next
    case (Suc j)
    with Cons.prems obtain s1 where
      c: "DockerImage w ident c s = (Returned None, s1)"
      and r: "run_ok w ident (take j (map Image cs)) s1 = Some sk"
      by (auto split: prod.splits outcome.splits option.splits)
    from Cons.prems Suc have "j < length cs"
      and "DockerImage w ident (cs ! j) sk = (Returned (Some err), sk')"
      by simp_all
    from Cons.IH [OF this(1) r this(2), of "Suc i"] c Suc show ?thesis by simp
  qed
qed

lemma BuildAll_ok:
  assumes "run_ok w ident (tasks bs) s = Some s'"
  shows "BuildAll w ident (Some bs) s = (Returned None, s')"
proof -
  from assms obtain s1 where
    b: "run_ok w ident (map Bundle (LambdaBundles bs)) s = Some s1"
    and i: "run_ok w ident (map Image (DockerImages bs)) s1 = Some s'"
    by (auto simp: tasks_def run_ok_append split: option.splits)
  show ?thesis
    by (simp add: BuildAll_def bundles_loop_ok [OF b] images_loop_ok [OF i])
qed

lemma BuildAll_fail:
  assumes k: "k < length (tasks bs)"
    and pre: "run_ok w ident (take k (tasks bs)) s = Some sk"
    and bad: "exec_task w ident (tasks bs ! k) sk = (Returned (Some err), sk')"
  shows "BuildAll w ident (Some bs) s =
           (Returned (Some (Wrap err (''build failed for lambda bundle '' @
              itoa (if k < length (LambdaBundles bs) then k
                    else k - length (LambdaBundles bs))))), sk')"
proof (cases "k < length (LambdaBundles bs)")
  case True
  with pre have "run_ok w ident (take k (map Bundle (LambdaBundles bs))) s = Some sk"
    by (simp add: tasks_def)
  moreover from True bad
  have "LambdaBundle w ident (LambdaBundles bs ! k) sk = (Returned (Some err), sk')"
    by (simp add: tasks_def nth_append)
  ultimately show ?thesis
    using True bundles_loop_fail [of k "LambdaBundles bs" w ident s sk err sk' 0]
    by (simp add: BuildAll_def)
next
  case False
  define j where "j = k - length (LambdaBundles bs)"
  from False k have j: "j < length (DockerImages bs)"
    by (simp add: j_def tasks_def)
  from False pre obtain s1 where
    b: "run_ok w ident (map Bundle (LambdaBundles bs)) s = Some s1"
    and i: "run_ok w ident (take j (map Image (DockerImages bs))) s1 = Some sk"
    by (auto simp: tasks_def run_ok_append j_def split: option.splits)
  from False bad
  have "DockerImage w ident (DockerImages bs ! j) sk = (Returned (Some err), sk')"
    using j by (simp add: tasks_def nth_append j_def)
  from images_loop_fail [OF j i this, of 0] False show ?thesis
    by (simp add: BuildAll_def bundles_loop_ok [OF b] j_def)
qed

text \<open>
  Claim C2. \<open>BuildAll\<close> goes through the task set in the order of \<open>tasks\<close>: the function
  bundles by index, then the container images by index. When every task returns nil,
  \<open>BuildAll\<close> returns nil in the state reached after the last one. When the tasks at
  positions \<open>0..k-1\<close> return nil, leading from \<open>s\<close> to \<open>sk\<close>, and the task at position \<open>k\<close>
  fails there, \<open>BuildAll\<close> returns an error, and it returns in the very state in which task
  \<open>k\<close> ended: the trace holds the events of the tasks \<open>0..k\<close> and nothing of a later task.
\<close>

theorem BuildAll_in_order_fail_fast:
  "(\<forall>s'. run_ok w ident (tasks bs) s = Some s' \<longrightarrow>
       BuildAll w ident (Some bs) s = (Returned None, s'))
   \<and> (\<forall>k sk err sk'.
         k < length (tasks bs)
         \<and> run_ok w ident (take k (tasks bs)) s = Some sk
         \<and> exec_task w ident (tasks bs ! k) sk = (Returned (Some err), sk') \<longrightarrow>
         (\<exists>err'. BuildAll w ident (Some bs) s = (Returned (Some err'), sk')))"
  using BuildAll_ok [of w ident bs s] BuildAll_fail [of _ bs w ident s] by blast

theorem BuildAll_in_order_fail_fast_witness:
  "(1::nat) < length (tasks example_builds)
   \<and> run_ok example_world example_ident (take 1 (tasks example_builds)) example_exec
       = Some \<lparr>bld = loaded_builder, trace = go_events\<rparr>
   \<and> exec_task example_world example_ident (tasks example_builds ! 1)
         \<lparr>bld = loaded_builder, trace = go_events\<rparr>
       = (Returned (Some (Wrap (New ''exit status 1'')
                            (''failed to run '' @ [CHR 0x22] @ ''false'' @ [CHR 0x22]))),
          \<lparr>bld = loaded_builder, trace = go_events @ failing_events\<rparr>)
   \<and> (\<exists>err'. BuildAll example_world example_ident (Some example_builds) example_exec
         = (Returned (Some err'), \<lparr>bld = loaded_builder, trace = go_events @ failing_events\<rparr>))
   \<and> run_ok example_world example_ident
         (tasks \<lparr>DockerImages = [], LambdaBundles = [Some example_go]\<rparr>) example_exec
       = Some \<lparr>bld = loaded_builder, trace = go_events\<rparr>
   \<and> BuildAll example_world example_ident
         (Some \<lparr>DockerImages = [], LambdaBundles = [Some example_go]\<rparr>) example_exec
       = (Returned None, \<lparr>bld = loaded_builder, trace = go_events\<rparr>)"
proof -
  have k: "(1::nat) < length (tasks example_builds)"
    by (simp add: tasks_example)
  have pre: "run_ok example_world example_ident (take 1 (tasks example_builds)) example_exec
       = Some \<lparr>bld = loaded_builder, trace = go_events\<rparr>"
    by (simp add: tasks_example example_exec_def LambdaBundle_example_go [OF example_regions(1)])
  have bad: "exec_task example_world example_ident (tasks example_builds ! 1)
         \<lparr>bld = loaded_builder, trace = go_events\<rparr>
       = (Returned (Some (Wrap (New ''exit status 1'')
                            (''failed to run '' @ [CHR 0x22] @ ''false'' @ [CHR 0x22]))),
          \<lparr>bld = loaded_builder, trace = go_events @ failing_events\<rparr>)"
    by (simp add: tasks_example LambdaBundle_example_failing [OF example_regions(2)])
  from BuildAll_in_order_fail_fast [of example_world example_ident example_builds example_exec]
    k pre bad
  have fail: "\<exists>err'. BuildAll example_world example_ident (Some example_builds) example_exec
         = (Returned (Some err'), \<lparr>bld = loaded_builder, trace = go_events @ failing_events\<rparr>)"
    by blast
  have all: "run_ok example_world example_ident
         (tasks \<lparr>DockerImages = [], LambdaBundles = [Some example_go]\<rparr>) example_exec
       = Some \<lparr>bld = loaded_builder, trace = go_events\<rparr>"
    by (simp add: tasks_def example_exec_def LambdaBundle_example_go [OF example_regions(1)])
  from BuildAll_in_order_fail_fast [of example_world example_ident
      "\<lparr>DockerImages = [], LambdaBundles = [Some example_go]\<rparr>" example_exec] all
  have ok: "BuildAll example_world example_ident
         (Some \<lparr>DockerImages = [], LambdaBundles = [Some example_go]\<rparr>) example_exec
       = (Returned None, \<lparr>bld = loaded_builder, trace = go_events\<rparr>)"
    by blast
  from k pre bad fail all ok show ?thesis by blast
qed

text \<open>
  Claim C3. The error of a failing task is wrapped with the kind of the task and its
  index within that kind. The loop over the container images wraps with the words of the
  loop over the function bundles: a task set with no function bundle and one container
  image, whose registry login fails, yields an error that names lambda bundle 0.
\<close>

theorem BuildAll_image_failure_tagged_lambda_bundle:
  "BuildAll (example_world\<lparr>b_pipe := \<lambda>tr src dst. Some (New ''exit status 1'')\<rparr>) example_ident
     (Some \<lparr>DockerImages = [Some example_image], LambdaBundles = []\<rparr>) example_exec
   = (Returned (Some (Wrap (Wrap (Wrap (New ''exit status 1'') ''failed to log into ecr'') [])
                  ''build failed for lambda bundle 0'')),
      \<lparr>bld = loaded_builder,
       trace = load_events @
         [EvPipe \<lparr>WorkingDirectory = [], EnvironmentVariables = None,
                  Command = ''aws'', Arguments = [''ecr'', ''get-login-password'']\<rparr>
                 \<lparr>WorkingDirectory = [], EnvironmentVariables = None,
                  Command = ''docker'',
                  Arguments = [''login'', ''--username'', ''AWS'', ''--password-stdin'',
                               ''123456789012.dkr.ecr.us-east-1.amazonaws.com'']\<rparr>]\<rparr>)"
  by (simp add: BuildAll_def DockerImage_def loadCreds_def example_world_def loadGitHubCreds_def
      loadAWSCreds_def lookupAWSCaller_def log_event_def secrets_Token_def load_events_def
      example_exec_def example_builder_def loaded_builder_def image_steps_def ecrLogin_def
      call_pipe_def errors_Wrap_def registry_def itoa.simps digit_def)

subsection \<open>What a task adds to the trace\<close>

lemma log_event_simps [simp]:
  "trace (log_event ev s) = trace s @ [ev]" "bld (log_event ev s) = bld s"
  by (simp_all add: log_event_def)

lemma goroutine_trace:
  "\<exists>evs. trace (snd (goroutine w f s)) = trace s @ evs \<and> evs \<noteq> []
         \<and> (\<forall>e\<in>set evs. \<not> is_command e)"
  by (cases f)
    (auto simp: loadGitHubCreds_def loadAWSCreds_def lookupAWSCaller_def Let_def
      split: sum.splits option.splits)

lemma errgroup_run_trace:
  "fs \<noteq> [] \<Longrightarrow>
   \<exists>evs. trace (snd (errgroup_run w fs s)) = trace s @ evs \<and> evs \<noteq> []
         \<and> (\<forall>e\<in>set evs. \<not> is_command e)"
proof (induction fs arbitrary: s)
  case Nil
  then show ?case by simp
next
  case (Cons f fs)
  obtain r s1 where g: "goroutine w f s = (r, s1)"
    by (cases "goroutine w f s")
  from goroutine_trace [of w f s] g obtain evs where
    evs: "trace s1 = trace s @ evs" "evs \<noteq> []" "\<forall>e\<in>set evs. \<not> is_command e"
    by auto
  show ?case
  proof (cases r)
    case Panicked
    with g evs show ?thesis by auto
  next
    case (Returned x)
    show ?thesis
    proof (cases fs)
      case Nil
      with g evs Returned show ?thesis by auto
    next
      case (Cons f' fs')
      then have "fs \<noteq> []" by simp
      from Cons.IH [OF this, of s1] obtain evs' where
        "trace (snd (errgroup_run w fs s1)) = trace s1 @ evs'" "\<forall>e\<in>set evs'. \<not> is_command e"
        by auto
      with g evs Returned show ?thesis
        by (auto split: prod.splits intro!: exI [of _ "evs @ evs'"])
    qed
  qed
qed

lemma order_of_nonempty: "order_of sc \<noteq> []"
  by (cases sc) simp_all

lemma distinct_order_of: "distinct (order_of sc)"
  by (cases sc) simp_all

lemma loadCreds_trace:
  "\<exists>evs. trace (snd (loadCreds w s)) = trace s @ evs \<and> evs \<noteq> []
         \<and> (\<forall>e\<in>set evs. \<not> is_command e)"
  using errgroup_run_trace [OF order_of_nonempty, of w "schedule w (trace s)" s]
  by (auto simp: loadCreds_def split: prod.splits)

lemma strings_Split_space_nonempty: "strings_Split_space s \<noteq> []"
  by (induction s) (auto split: list.splits)

lemma build_process_Some:
  "build_process b ident cfg =
     Some \<lparr>WorkingDirectory = Directory ident,
           EnvironmentVariables = Some (cred_env b),
           Command = hd (strings_Split_space (BuildCommand cfg)),
           Arguments = tl (strings_Split_space (BuildCommand cfg))\<rparr>"
  using strings_Split_space_nonempty [of "BuildCommand cfg"]
  by (auto simp: build_process_def split: list.splits)

lemma call_run_simps [simp]:
  "fst (call_run w p s) = b_run w (trace s) p"
  "snd (call_run w p s) = log_event (EvRun p) s"
  by (simp_all add: call_run_def)

lemma archive_and_upload_trace:
  "\<exists>evs. trace (snd (archive_and_upload w ident cfg s)) = trace s @ evs
         \<and> bld (snd (archive_and_upload w ident cfg s)) = bld s
         \<and> (\<forall>e\<in>set evs. is_command e \<and> (\<forall>env\<in>set (event_env e). env = cred_env (bld s)))"
  by (auto simp: archive_and_upload_def call_run_def archive_process_def upload_process_def
      split: option.splits prod.splits if_splits)

lemma bundle_steps_trace:
  "\<exists>evs. trace (snd (bundle_steps w ident c s)) = trace s @ evs
         \<and> bld (snd (bundle_steps w ident c s)) = bld s
         \<and> (\<forall>e\<in>set evs. is_command e \<and> (\<forall>env\<in>set (event_env e). env = cred_env (bld s)))"
proof (cases c)
  case None
  then show ?thesis by (simp add: bundle_steps_def)
next
  case (Some cfg)
  let ?p = "\<lparr>WorkingDirectory = Directory ident,
           EnvironmentVariables = Some (cred_env (bld s)),
           Command = hd (strings_Split_space (BuildCommand cfg)),
           Arguments = tl (strings_Split_space (BuildCommand cfg))\<rparr>"
  show ?thesis
  proof (cases "b_run w (trace s) ?p")
    case None
    from archive_and_upload_trace [of w ident cfg "log_event (EvRun ?p) s"]
    obtain evs where
      "trace (snd (archive_and_upload w ident cfg (log_event (EvRun ?p) s))) = trace s @ EvRun ?p # evs"
      "bld (snd (archive_and_upload w ident cfg (log_event (EvRun ?p) s))) = bld s"
      "\<forall>e\<in>set evs. is_command e \<and> (\<forall>env\<in>set (event_env e). env = cred_env (bld s))"
      by auto
    with Some None show ?thesis
      by (auto simp: bundle_steps_def build_process_Some call_run_def intro!: exI [of _ "EvRun ?p # evs"])
  next
    case (Some err)
    with \<open>c = Some cfg\<close> show ?thesis
      by (auto simp: bundle_steps_def build_process_Some call_run_def)
  qed
qed

lemma image_steps_trace:
  "\<exists>evs. trace (snd (image_steps w ident c s)) = trace s @ evs
         \<and> bld (snd (image_steps w ident c s)) = bld s
         \<and> (\<forall>e\<in>set evs. is_command e \<and> (\<forall>env\<in>set (event_env e). env = cred_env (bld s)))"
  by (auto simp: image_steps_def ecrLogin_def call_pipe_def call_run_def
      docker_build_process_def docker_push_process_def
      split: option.splits prod.splits)

lemma goroutine_ok_event:
  "goroutine w f s = (Returned None, s1) \<Longrightarrow>
   \<exists>evs. trace s1 = trace s @ evs \<and>
     (case f of GitHubToken \<Rightarrow> EvGetSecretValue secrets_Token
      | AWSCredentials \<Rightarrow> EvRetrieve | AWSCaller \<Rightarrow> EvGetCallerIdentity) \<in> set evs"
  by (cases f)
    (auto simp: loadGitHubCreds_def loadAWSCreds_def lookupAWSCaller_def Let_def
      split: sum.splits option.splits)

lemma errgroup_run_ok_events:
  "errgroup_Wait (fst (errgroup_run w fs s)) = Returned None \<Longrightarrow>
   \<exists>evs. trace (snd (errgroup_run w fs s)) = trace s @ evs \<and>
     (\<forall>f\<in>set fs. (case f of GitHubToken \<Rightarrow> EvGetSecretValue secrets_Token
      | AWSCredentials \<Rightarrow> EvRetrieve | AWSCaller \<Rightarrow> EvGetCallerIdentity) \<in> set evs)"
proof (induction fs arbitrary: s)
  case Nil
  then show ?case by simp
next
  case (Cons f fs)
  obtain r s1 where g: "goroutine w f s = (r, s1)"
    by (cases "goroutine w f s")
  obtain rs s2 where e: "errgroup_run w fs s1 = (rs, s2)"
    by (cases "errgroup_run w fs s1")
  have r: "r = Returned None"
  proof (cases r)
    case Panicked
    with Cons.prems g show ?thesis by simp
  next
    case (Returned x)
    with Cons.prems g e show ?thesis
      by (cases x) (simp_all split: outcome.splits)
  qed
  with Cons.prems g e have w: "errgroup_Wait rs = Returned None"
    by simp
  from goroutine_ok_event [of w f s s1] g r obtain evs where
    evs: "trace s1 = trace s @ evs"
      "(case f of GitHubToken \<Rightarrow> EvGetSecretValue secrets_Token
      | AWSCredentials \<Rightarrow> EvRetrieve | AWSCaller \<Rightarrow> EvGetCallerIdentity) \<in> set evs"
    by auto
  from Cons.IH [of s1] e w obtain evs' where
    evs': "trace s2 = trace s1 @ evs'"
      "\<forall>f\<in>set fs. (case f of GitHubToken \<Rightarrow> EvGetSecretValue secrets_Token
      | AWSCredentials \<Rightarrow> EvRetrieve | AWSCaller \<Rightarrow> EvGetCallerIdentity) \<in> set evs'"
    by auto
  from g e r evs evs' show ?case
    by (intro exI [of _ "evs @ evs'"]) auto
qed

lemma set_order_of: "set (order_of sc) = {GitHubToken, AWSCredentials, AWSCaller}"
  by (cases sc) auto

lemma loadCreds_ok_events:
  assumes "fst (loadCreds w s) = Returned None"
    and "trace (snd (loadCreds w s)) = trace s @ evs"
  shows "EvGetSecretValue secrets_Token \<in> set evs \<and> EvRetrieve \<in> set evs
         \<and> EvGetCallerIdentity \<in> set evs"
proof -
  from assms(1) have "errgroup_Wait (fst (errgroup_run w (order_of (schedule w (trace s))) s)) = Returned None"
    by (simp add: loadCreds_def split: prod.splits)
  from errgroup_run_ok_events [OF this] obtain evs' where
    "trace (snd (errgroup_run w (order_of (schedule w (trace s))) s)) = trace s @ evs'"
    "\<forall>f\<in>set (order_of (schedule w (trace s))).
       (case f of GitHubToken \<Rightarrow> EvGetSecretValue secrets_Token
      | AWSCredentials \<Rightarrow> EvRetrieve | AWSCaller \<Rightarrow> EvGetCallerIdentity) \<in> set evs'"
    by auto
  moreover have "snd (loadCreds w s) = snd (errgroup_run w (order_of (schedule w (trace s))) s)"
    by (simp add: loadCreds_def split: prod.splits)
  ultimately show ?thesis
    using assms(2) by (auto simp: set_order_of)
qed

lemma exec_task_trace:
  "\<exists>fetches cmds.
      trace (snd (loadCreds w s)) = trace s @ fetches \<and> fetches \<noteq> []
    \<and> (\<forall>e\<in>set fetches. \<not> is_command e)
    \<and> trace (snd (exec_task w ident t s)) = trace s @ fetches @ cmds
    \<and> (\<forall>e\<in>set cmds. is_command e
          \<and> (\<forall>env\<in>set (event_env e). env = cred_env (bld (snd (loadCreds w s)))))
    \<and> (fst (loadCreds w s) \<noteq> Returned None \<longrightarrow> cmds = [])"
proof -
  obtain r s1 where l: "loadCreds w s = (r, s1)"
    by (cases "loadCreds w s")
  from loadCreds_trace [of w s] l obtain fetches where
    f: "trace s1 = trace s @ fetches" "fetches \<noteq> []" "\<forall>e\<in>set fetches. \<not> is_command e"
    by auto
  show ?thesis
  proof (cases "r = Returned None")
    case False
    then have "snd (exec_task w ident t s) = s1"
      using l by (cases t; cases r) (auto simp: LambdaBundle_def DockerImage_def split: option.splits)
    with f l False show ?thesis by auto
  next
    case True
    have "\<exists>cmds. trace (snd (exec_task w ident t s)) = trace s1 @ cmds
         \<and> (\<forall>e\<in>set cmds. is_command e \<and> (\<forall>env\<in>set (event_env e). env = cred_env (bld s1)))"
    proof (cases t)
      case (Bundle c)
      with l True bundle_steps_trace [of w ident c s1] show ?thesis
        by (auto simp: LambdaBundle_def)
    next
      case (Image c)
      with l True image_steps_trace [of w ident c s1] show ?thesis
        by (auto simp: DockerImage_def)
    qed
    with f l True show ?thesis by auto
  qed
qed

lemma exec_task_mono: "\<exists>evs. trace (snd (exec_task w ident t s)) = trace s @ evs"
  using exec_task_trace [of w s ident t] by auto

lemma bundles_loop_mono: "\<exists>evs. trace (snd (bundles_loop w ident i cs s)) = trace s @ evs"
proof (induction cs arbitrary: i s)
  case Nil
  then show ?case by simp
next
  case (Cons c cs)
  obtain r s1 where l: "LambdaBundle w ident c s = (r, s1)"
    by (cases "LambdaBundle w ident c s")
  from exec_task_mono [of w ident "Bundle c" s] l obtain evs where
    e: "trace s1 = trace s @ evs" by auto
  from Cons.IH [of "Suc i" s1] obtain evs' where
    "trace (snd (bundles_loop w ident (Suc i) cs s1)) = trace s1 @ evs'" by auto
  with l e show ?case
    by (cases r) (auto split: option.splits)
qed

lemma images_loop_mono: "\<exists>evs. trace (snd (images_loop w ident i cs s)) = trace s @ evs"
proof (induction cs arbitrary: i s)
  case Nil
  then show ?case by simp
next
  case (Cons c cs)
  obtain r s1 where l: "DockerImage w ident c s = (r, s1)"
    by (cases "DockerImage w ident c s")
  from exec_task_mono [of w ident "Image c" s] l obtain evs where
    e: "trace s1 = trace s @ evs" by auto
  from Cons.IH [of "Suc i" s1] obtain evs' where
    "trace (snd (images_loop w ident (Suc i) cs s1)) = trace s1 @ evs'" by auto
  with l e show ?case
    by (cases r) (auto split: option.splits)
qed

lemma bundles_loop_through:
  "k < length cs \<Longrightarrow> run_ok w ident (take k (map Bundle cs)) s = Some sk \<Longrightarrow>
   \<exists>rest. trace (snd (bundles_loop w ident i cs s)) =
            trace (snd (LambdaBundle w ident (cs ! k) sk)) @ rest"
proof (induction cs arbitrary: k i s)
  case Nil
  then show ?case by simp
next
  case (Cons c cs)
  show ?case
  proof (cases k)
    case 0
    obtain r s1 where l: "LambdaBundle w ident c s = (r, s1)"
      by (cases "LambdaBundle w ident c s")
    from bundles_loop_mono [of w ident "Suc i" cs s1] l 0 Cons.prems show ?thesis
      by (cases r) (auto split: option.splits)
  next
    case (Suc j)
    with Cons.prems obtain s1 where
      c: "LambdaBundle w ident c s = (Returned None, s1)"
      and r: "run_ok w ident (take j (map Bundle cs)) s1 = Some sk"
      by (auto split: prod.splits outcome.splits option.splits)
    from Cons.prems Suc have "j < length cs" by simp
    from Cons.IH [OF this r, of "Suc i"] c Suc show ?thesis by simp
  qed
qed

lemma images_loop_through:
  "k < length cs \<Longrightarrow> run_ok w ident (take k (map Image cs)) s = Some sk \<Longrightarrow>
   \<exists>rest. trace (snd (images_loop w ident i cs s)) =
            trace (snd (DockerImage w ident (cs ! k) sk)) @ rest"
proof (induction cs arbitrary: k i s)
  case Nil
  then show ?case by simp
next
  case (Cons c cs)
  show ?case
  proof (cases k)
    case 0
    obtain r s1 where l: "DockerImage w ident c s = (r, s1)"
      by (cases "DockerImage w ident c s")
    from images_loop_mono [of w ident "Suc i" cs s1] l 0 Cons.prems show ?thesis
      by (cases r) (auto split: option.splits)
  next
    case (Suc j)
    with Cons.prems obtain s1 where
      c: "DockerImage w ident c s = (Returned None, s1)"
      and r: "run_ok w ident (take j (map Image cs)) s1 = Some sk"
      by (auto split: prod.splits outcome.splits option.splits)
    from Cons.prems Suc have "j < length cs" by simp
    from Cons.IH [OF this r, of "Suc i"] c Suc show ?thesis by simp
  qed
qed

lemma BuildAll_through:
  assumes k: "k < length (tasks bs)"
    and pre: "run_ok w ident (take k (tasks bs)) s = Some sk"
  shows "\<exists>rest. trace (snd (BuildAll w ident (Some bs) s)) =
                 trace (snd (exec_task w ident (tasks bs ! k) sk)) @ rest"
proof (cases "k < length (LambdaBundles bs)")
  case True
  with pre have p: "run_ok w ident (take k (map Bundle (LambdaBundles bs))) s = Some sk"
    by (simp add: tasks_def)
  obtain r s1 where l: "bundles_loop w ident 0 (LambdaBundles bs) s = (r, s1)"
    by (cases "bundles_loop w ident 0 (LambdaBundles bs) s")
  from bundles_loop_through [OF True p, of 0] l obtain rest where
    rest: "trace s1 = trace (snd (LambdaBundle w ident (LambdaBundles bs ! k) sk)) @ rest"
    by auto
  from images_loop_mono [of w ident 0 "DockerImages bs" s1] obtain evs where
    "trace (snd (images_loop w ident 0 (DockerImages bs) s1)) = trace s1 @ evs" by auto
  with rest l True show ?thesis
    by (cases r) (auto simp: BuildAll_def tasks_def nth_append split: option.splits)
next
  case False
  define j where "j = k - length (LambdaBundles bs)"
  from False k have j: "j < length (DockerImages bs)"
    by (simp add: j_def tasks_def)
  from False pre obtain s1 where
    b: "run_ok w ident (map Bundle (LambdaBundles bs)) s = Some s1"
    and i: "run_ok w ident (take j (map Image (DockerImages bs))) s1 = Some sk"
    by (auto simp: tasks_def run_ok_append j_def split: option.splits)
  from images_loop_through [OF j i, of 0] False j show ?thesis
    by (simp add: BuildAll_def bundles_loop_ok [OF b] tasks_def nth_append j_def)
qed


subsection \<open>A load that returns nil installs what it fetched\<close>

lemma answered_append: "answered ok ev tr es \<Longrightarrow> answered ok ev tr (es @ es')"
  by (induction es arbitrary: tr) auto

lemma answered_skip: "answered ok ev (tr @ pre) es \<Longrightarrow> answered ok ev tr (pre @ es)"
  by (induction pre arbitrary: tr) auto

lemma goroutine_installs:
  "goroutine w f s = (Returned None, s1) \<Longrightarrow>
   \<exists>evs. trace s1 = trace s @ evs
     \<and> answered (fetch_answer w (bld s1) f) (fetch_call f) (trace s) evs"
  by (cases f)
    (auto simp: loadGitHubCreds_def loadAWSCreds_def lookupAWSCaller_def Let_def log_event_def
      split: sum.splits option.splits)

lemma goroutine_keeps_others:
  "goroutine w g s = (r, s1) \<Longrightarrow> g \<noteq> f \<Longrightarrow>
   fetch_answer w (bld s1) f = fetch_answer w (bld s) f"
  by (cases g; cases f)
    (auto simp: loadGitHubCreds_def loadAWSCreds_def lookupAWSCaller_def Let_def log_event_def
      fun_eq_iff split: sum.splits option.splits)

lemma errgroup_run_keeps_others:
  "f \<notin> set fs \<Longrightarrow>
   fetch_answer w (bld (snd (errgroup_run w fs s))) f = fetch_answer w (bld s) f"
proof (induction fs arbitrary: s)
  case Nil
  then show ?case by simp
next
  case (Cons g fs)
  obtain r s1 where g: "goroutine w g s = (r, s1)"
    by (cases "goroutine w g s")
  from Cons.prems have gf: "g \<noteq> f" and nf: "f \<notin> set fs" by auto
  from goroutine_keeps_others [OF g gf]
  have k: "fetch_answer w (bld s1) f = fetch_answer w (bld s) f" .
  obtain rs s2 where e: "errgroup_run w fs s1 = (rs, s2)"
    by (cases "errgroup_run w fs s1")
  show ?case
  proof (cases r)
    case Panicked
    with g k show ?thesis by simp
  next
    case (Returned x)
    from Cons.IH [OF nf, of s1] e k
    have "fetch_answer w (bld s2) f = fetch_answer w (bld s) f" by simp
    with g e Returned show ?thesis by simp
  qed
qed

lemma errgroup_run_trace_any:
  "\<exists>evs. trace (snd (errgroup_run w fs s)) = trace s @ evs"
proof (cases fs)
  case Nil
  then show ?thesis by simp
next
  case (Cons f fs')
  then have "fs \<noteq> []" by simp
  from errgroup_run_trace [OF this, of w s] show ?thesis by blast
qed

lemma errgroup_run_installs:
  "errgroup_Wait (fst (errgroup_run w fs s)) = Returned None \<Longrightarrow> distinct fs \<Longrightarrow>
   f \<in> set fs \<Longrightarrow>
   \<exists>evs. trace (snd (errgroup_run w fs s)) = trace s @ evs
     \<and> answered (fetch_answer w (bld (snd (errgroup_run w fs s))) f) (fetch_call f) (trace s) evs"
proof (induction fs arbitrary: s)
  case Nil
  then show ?case by simp
next
  case (Cons g fs)
  obtain r s1 where g: "goroutine w g s = (r, s1)"
    by (cases "goroutine w g s")
  obtain rs s2 where e: "errgroup_run w fs s1 = (rs, s2)"
    by (cases "errgroup_run w fs s1")
  have r: "r = Returned None"
  proof (cases r)
    case Panicked
    with Cons.prems g show ?thesis by simp
  next
    case (Returned x)
    with Cons.prems g e show ?thesis
      by (cases x) (simp_all split: outcome.splits)
  qed
  with Cons.prems g e have wt: "errgroup_Wait (fst (errgroup_run w fs s1)) = Returned None"
    by simp
  from g e r have res: "snd (errgroup_run w (g # fs) s) = s2" by simp
  from errgroup_run_trace_any [of w fs s1] e obtain evs2 where
    evs2: "trace s2 = trace s1 @ evs2" by auto
  show ?case
  proof (cases "f = g")
    case True
    with Cons.prems have "f \<notin> set fs" by simp
    from errgroup_run_keeps_others [OF this, of w s1] e
    have k: "fetch_answer w (bld s2) f = fetch_answer w (bld s1) f" by simp
    from goroutine_installs [of w g s s1] g r True obtain evs where
      evs: "trace s1 = trace s @ evs"
        "answered (fetch_answer w (bld s1) f) (fetch_call f) (trace s) evs"
      by auto
    from evs(2) k have "answered (fetch_answer w (bld s2) f) (fetch_call f) (trace s) (evs @ evs2)"
      by (simp add: answered_append)
    with evs(1) evs2 res show ?thesis by auto
  next
    case False
    with Cons.prems have fin: "f \<in> set fs" and d: "distinct fs" by auto
    from Cons.IH [OF wt d fin] e obtain evs' where
      evs': "trace s2 = trace s1 @ evs'"
        "answered (fetch_answer w (bld s2) f) (fetch_call f) (trace s1) evs'"
      by auto
    from goroutine_trace [of w g s] g obtain evs where
      evs: "trace s1 = trace s @ evs" by auto
    from evs'(2) evs have "answered (fetch_answer w (bld s2) f) (fetch_call f) (trace s) (evs @ evs')"
      by (simp add: answered_skip)
    with evs evs'(1) res show ?thesis by auto
  qed
qed

lemma loadCreds_fresh:
  assumes "fst (loadCreds w s) = Returned None"
    and "trace (snd (loadCreds w s)) = trace s @ evs"
  shows "fresh_credentials w (bld (snd (loadCreds w s))) (trace s) evs"
proof -
  let ?fs = "order_of (schedule w (trace s))"
  from assms(1) have wt: "errgroup_Wait (fst (errgroup_run w ?fs s)) = Returned None"
    by (simp add: loadCreds_def split: prod.splits)
  have sn: "snd (loadCreds w s) = snd (errgroup_run w ?fs s)"
    by (simp add: loadCreds_def split: prod.splits)
  have "answered (fetch_answer w (bld (snd (loadCreds w s))) f) (fetch_call f) (trace s) evs" for f
  proof -
    have "f \<in> set ?fs" by (cases f) (simp_all add: set_order_of)
    from errgroup_run_installs [OF wt distinct_order_of this] sn assms(2)
    show ?thesis by auto
  qed
  then show ?thesis
    unfolding fresh_credentials_def by blast
qed

text \<open>
  Claim C7. Take any position \<open>k\<close> of the task set that \<open>BuildAll\<close> reaches, that is, the
  tasks before it returned nil and led from \<open>s\<close> to \<open>sk\<close>. What \<open>BuildAll\<close> does next is
  a load of the credentials from \<open>sk\<close>: its fetches come first, before any process of the
  task is started. When the load returns nil it has fetched the token, the credentials
  and the caller identity anew, and the credentials are fresh: each of the three fields
  of the builder holds what the world answered to a call made among the fetches of this
  very load, after everything the earlier tasks did. Every process the task then starts
  carries, if it carries credentials at all, those of that builder; and when the load
  does not return nil, the task starts no process. Both kinds of task do so.
\<close>

theorem credentials_loaded_before_every_task:
  assumes "k < length (tasks bs)"
    and "run_ok w ident (take k (tasks bs)) s = Some sk"
  shows "\<exists>fetches cmds rest.
      trace (snd (loadCreds w sk)) = trace sk @ fetches \<and> fetches \<noteq> []
    \<and> (\<forall>e\<in>set fetches. \<not> is_command e)
    \<and> trace (snd (exec_task w ident (tasks bs ! k) sk)) = trace sk @ fetches @ cmds
    \<and> (\<forall>e\<in>set cmds. is_command e
          \<and> (\<forall>env\<in>set (event_env e). env = cred_env (bld (snd (loadCreds w sk)))))
    \<and> (fst (loadCreds w sk) \<noteq> Returned None \<longrightarrow> cmds = [])
    \<and> (fst (loadCreds w sk) = Returned None \<longrightarrow>
         EvGetSecretValue secrets_Token \<in> set fetches \<and> EvRetrieve \<in> set fetches
         \<and> EvGetCallerIdentity \<in> set fetches
         \<and> fresh_credentials w (bld (snd (loadCreds w sk))) (trace sk) fetches)
    \<and> trace (snd (BuildAll w ident (Some bs) s)) = trace sk @ fetches @ cmds @ rest"
proof -
  from exec_task_trace [of w sk ident "tasks bs ! k"] obtain fetches cmds where
    a: "trace (snd (loadCreds w sk)) = trace sk @ fetches" "fetches \<noteq> []"
      "\<forall>e\<in>set fetches. \<not> is_command e"
      "trace (snd (exec_task w ident (tasks bs ! k) sk)) = trace sk @ fetches @ cmds"
      "\<forall>e\<in>set cmds. is_command e
          \<and> (\<forall>env\<in>set (event_env e). env = cred_env (bld (snd (loadCreds w sk))))"
      "fst (loadCreds w sk) \<noteq> Returned None \<longrightarrow> cmds = []"
    by blast
  from BuildAll_through [OF assms] obtain rest where
    "trace (snd (BuildAll w ident (Some bs) s)) =
       trace (snd (exec_task w ident (tasks bs ! k) sk)) @ rest" by blast
  with a(4) have "trace (snd (BuildAll w ident (Some bs) s)) = trace sk @ fetches @ cmds @ rest"
    by simp
  moreover from loadCreds_ok_events [OF _ a(1)] loadCreds_fresh [OF _ a(1)]
  have "fst (loadCreds w sk) = Returned None \<longrightarrow>
         EvGetSecretValue secrets_Token \<in> set fetches \<and> EvRetrieve \<in> set fetches
         \<and> EvGetCallerIdentity \<in> set fetches
         \<and> fresh_credentials w (bld (snd (loadCreds w sk))) (trace sk) fetches"
    by blast
  ultimately show ?thesis using a by blast
qed

theorem credentials_loaded_before_every_task_witness:
  "(1::nat) < length (tasks example_builds)
   \<and> run_ok example_world example_ident (take 1 (tasks example_builds)) example_exec
       = Some \<lparr>bld = loaded_builder, trace = go_events\<rparr>
   \<and> (\<exists>fetches cmds rest.
        go_events @ load_events = go_events @ fetches \<and> fetches \<noteq> []
      \<and> go_events @ failing_events = go_events @ fetches @ cmds
      \<and> EvGetSecretValue secrets_Token \<in> set fetches \<and> EvRetrieve \<in> set fetches
      \<and> EvGetCallerIdentity \<in> set fetches
      \<and> fresh_credentials example_world loaded_builder go_events fetches
      \<and> trace (snd (BuildAll example_world example_ident (Some example_builds) example_exec))
          = go_events @ fetches @ cmds @ rest)"
proof -
  have k: "(1::nat) < length (tasks example_builds)"
    by (simp add: tasks_example)
  have pre: "run_ok example_world example_ident (take 1 (tasks example_builds)) example_exec
       = Some \<lparr>bld = loaded_builder, trace = go_events\<rparr>"
    by (simp add: tasks_example example_exec_def LambdaBundle_example_go [OF example_regions(1)])
  have l: "loadCreds example_world \<lparr>bld = loaded_builder, trace = go_events\<rparr>
             = (Returned None, \<lparr>bld = loaded_builder, trace = go_events @ load_events\<rparr>)"
    by (rule loadCreds_example_any [OF example_regions(2)])
  have t: "exec_task example_world example_ident (tasks example_builds ! 1)
             \<lparr>bld = loaded_builder, trace = go_events\<rparr>
           = (Returned (Some (Wrap (New ''exit status 1'')
                            (''failed to run '' @ [CHR 0x22] @ ''false'' @ [CHR 0x22]))),
              \<lparr>bld = loaded_builder, trace = go_events @ failing_events\<rparr>)"
    by (simp add: tasks_example LambdaBundle_example_failing [OF example_regions(2)])
  from credentials_loaded_before_every_task [OF k pre]
  have "\<exists>fetches cmds rest.
        go_events @ load_events = go_events @ fetches \<and> fetches \<noteq> []
      \<and> go_events @ failing_events = go_events @ fetches @ cmds
      \<and> EvGetSecretValue secrets_Token \<in> set fetches \<and> EvRetrieve \<in> set fetches
      \<and> EvGetCallerIdentity \<in> set fetches
      \<and> fresh_credentials example_world loaded_builder go_events fetches
      \<and> trace (snd (BuildAll example_world example_ident (Some example_builds) example_exec))
          = go_events @ fetches @ cmds @ rest"
    using t by (simp add: l) blast
  with k pre show ?thesis by blast
qed


subsection \<open>An unrecognized runtime\<close>

lemma archive_process_unknown:
  "Runtime cfg \<noteq> ''go1.x'' \<Longrightarrow> Runtime cfg \<noteq> ''nodejs14.x'' \<Longrightarrow> archive_process ident cfg = None"
  by (simp add: archive_process_def)


text \<open>
  Claim C1, as the code has it. A function-bundle task whose runtime is neither
  \<open>go1.x\<close> nor \<open>nodejs14.x\<close> never returns nil, and it starts neither the archiver nor
  the uploader; but the runtime is looked at only after the credentials are loaded and
  the build command has run. When the load does not return nil, nothing else happens:
  the task panics if the load did, and otherwise returns the error of the load, wrapped.
  When the load returns nil, the one process the task starts is the build command: if
  that succeeds the task fails with \<open>unknown runtime\<close> followed by the runtime, and if
  it fails the task returns the error of the build command, wrapped with the command.
\<close>

theorem unknown_runtime_fails_after_build:
  assumes "Runtime cfg \<noteq> ''go1.x''" and "Runtime cfg \<noteq> ''nodejs14.x''"
  shows "fst (LambdaBundle w ident (Some cfg) s) \<noteq> Returned None
    \<and> (\<exists>p. build_process (bld (snd (loadCreds w s))) ident cfg = Some p
        \<and> (fst (loadCreds w s) \<noteq> Returned None \<longrightarrow>
             snd (LambdaBundle w ident (Some cfg) s) = snd (loadCreds w s))
        \<and> (fst (loadCreds w s) = Panicked \<longrightarrow> fst (LambdaBundle w ident (Some cfg) s) = Panicked)
        \<and> (\<forall>err. fst (loadCreds w s) = Returned (Some err) \<longrightarrow>
             fst (LambdaBundle w ident (Some cfg) s) =
               Returned (Some (Wrap err ''failed to load external credentials'')))
        \<and> (fst (loadCreds w s) = Returned None \<longrightarrow>
             snd (LambdaBundle w ident (Some cfg) s) = log_event (EvRun p) (snd (loadCreds w s))
             \<and> (b_run w (trace (snd (loadCreds w s))) p = None \<longrightarrow>
                  fst (LambdaBundle w ident (Some cfg) s) =
                    Returned (Some (New (''unknown runtime '' @ Runtime cfg))))
             \<and> (\<forall>err. b_run w (trace (snd (loadCreds w s))) p = Some err \<longrightarrow>
                  fst (LambdaBundle w ident (Some cfg) s) =
                    Returned (Some (Wrap err
                      (''failed to run '' @ [CHR 0x22] @ BuildCommand cfg @ [CHR 0x22]))))))"
proof -
  obtain r s1 where l: "loadCreds w s = (r, s1)"
    by (cases "loadCreds w s")
  obtain p where p: "build_process (bld s1) ident cfg = Some p"
    by (simp add: build_process_Some)
  have "archive_and_upload w ident cfg (log_event (EvRun p) s1) =
          (Returned (Some (New (''unknown runtime '' @ Runtime cfg))), log_event (EvRun p) s1)"
    by (simp add: archive_and_upload_def archive_process_unknown [OF assms])
  with l p show ?thesis
    by (cases r) (auto simp: LambdaBundle_def bundle_steps_def call_run_def split: option.splits)
qed

theorem unknown_runtime_fails_after_build_witness:
  "Runtime example_unknown \<noteq> ''go1.x'' \<and> Runtime example_unknown \<noteq> ''nodejs14.x''
   \<and> LambdaBundle example_world example_ident (Some example_unknown) example_exec =
       (Returned (Some (New ''unknown runtime unknown'')),
        \<lparr>bld = loaded_builder,
         trace = load_events @
           [EvRun \<lparr>WorkingDirectory = ''/tmp/src'', EnvironmentVariables = Some loaded_env,
                   Command = ''make'', Arguments = [''build'']\<rparr>]\<rparr>)
   \<and> LambdaBundle example_world example_ident
         (Some (example_unknown\<lparr>BuildCommand := ''false''\<rparr>)) example_exec =
       (Returned (Some (Wrap (New ''exit status 1'')
                          (''failed to run '' @ [CHR 0x22] @ ''false'' @ [CHR 0x22]))),
        \<lparr>bld = loaded_builder,
         trace = load_events @
           [EvRun \<lparr>WorkingDirectory = ''/tmp/src'', EnvironmentVariables = Some loaded_env,
                   Command = ''false'', Arguments = []\<rparr>]\<rparr>)"
proof -
  have r: "Runtime example_unknown \<noteq> ''go1.x''" "Runtime example_unknown \<noteq> ''nodejs14.x''"
    by (simp_all add: example_unknown_def)
  have r': "Runtime (example_unknown\<lparr>BuildCommand := ''false''\<rparr>) \<noteq> ''go1.x''"
    "Runtime (example_unknown\<lparr>BuildCommand := ''false''\<rparr>) \<noteq> ''nodejs14.x''"
    by (simp_all add: example_unknown_def)
  have rt: "Runtime example_unknown = ''unknown''"
    by (simp add: example_unknown_def)
  have bc: "BuildCommand (example_unknown\<lparr>BuildCommand := ''false''\<rparr>) = ''false''"
    by simp
  have l: "loadCreds example_world example_exec
             = (Returned None, \<lparr>bld = loaded_builder, trace = load_events\<rparr>)"
    using loadCreds_example_any [OF example_regions(1), of "[]"] by (simp add: example_exec_def)
  have p: "build_process loaded_builder example_ident example_unknown =
      Some \<lparr>WorkingDirectory = ''/tmp/src'', EnvironmentVariables = Some loaded_env,
                   Command = ''make'', Arguments = [''build'']\<rparr>"
    by (simp add: build_process_def example_unknown_def example_ident_def cred_env_def
        loaded_builder_def loaded_env_def)
  have p': "build_process loaded_builder example_ident (example_unknown\<lparr>BuildCommand := ''false''\<rparr>) =
      Some \<lparr>WorkingDirectory = ''/tmp/src'', EnvironmentVariables = Some loaded_env,
                   Command = ''false'', Arguments = []\<rparr>"
    by (simp add: build_process_def example_unknown_def example_ident_def cred_env_def
        loaded_builder_def loaded_env_def)
  from unknown_runtime_fails_after_build [OF r, of example_world example_ident example_exec]
  have one: "LambdaBundle example_world example_ident (Some example_unknown) example_exec =
       (Returned (Some (New ''unknown runtime unknown'')),
        \<lparr>bld = loaded_builder,
         trace = load_events @
           [EvRun \<lparr>WorkingDirectory = ''/tmp/src'', EnvironmentVariables = Some loaded_env,
                   Command = ''make'', Arguments = [''build'']\<rparr>]\<rparr>)"
    using rt by (auto simp: l p example_world_run log_event_def prod_eq_iff)
  from unknown_runtime_fails_after_build [OF r', of example_world example_ident example_exec]
  have two: "LambdaBundle example_world example_ident
         (Some (example_unknown\<lparr>BuildCommand := ''false''\<rparr>)) example_exec =
       (Returned (Some (Wrap (New ''exit status 1'')
                          (''failed to run '' @ [CHR 0x22] @ ''false'' @ [CHR 0x22]))),
        \<lparr>bld = loaded_builder,
         trace = load_events @
           [EvRun \<lparr>WorkingDirectory = ''/tmp/src'', EnvironmentVariables = Some loaded_env,
                   Command = ''false'', Arguments = []\<rparr>]\<rparr>)"
    unfolding bc by (auto simp: l p' example_world_run log_event_def prod_eq_iff)
  from r one two show ?thesis by simp
qed


text \<open>
  Claim C1, as it is stated, fails: for the runtime \<open>unknown\<close> and the build command
  \<open>make build\<close>, in a world where everything succeeds, the task fails with the unknown
  runtime error, and the trace shows that \<open>make build\<close> was run.
\<close>

theorem unknown_runtime_runs_build_command:
  "fst (LambdaBundle example_world example_ident (Some example_unknown) example_exec)
     = Returned (Some (New ''unknown runtime unknown''))
   \<and> EvRun \<lparr>WorkingDirectory = ''/tmp/src'', EnvironmentVariables = Some loaded_env,
            Command = ''make'', Arguments = [''build'']\<rparr>
       \<in> set (trace (snd (LambdaBundle example_world example_ident (Some example_unknown)
                             example_exec)))"
  by (simp add: example_exec_def LambdaBundle_example_unknown [OF example_regions(1)])

subsection \<open>The name of the archive\<close>

lemma archive_process_known:
  "Runtime cfg = ''go1.x'' \<or> Runtime cfg = ''nodejs14.x'' \<Longrightarrow>
   \<exists>more. archive_process ident cfg =
     Some \<lparr>WorkingDirectory = (if Runtime cfg = ''go1.x'' then ''dist'' else []),
           EnvironmentVariables = None,
           Command = ''zip'',
           Arguments = ((if Runtime cfg = ''go1.x'' then ''../'' else []) @ Commit ident @ ''.zip'')
                        # ''*'' # more\<rparr>"
  by (auto simp: archive_process_def zipfile_def)


text \<open>
  Claim C5. For a recognized runtime, once the credentials are loaded and the build
  command has succeeded, the next process is \<open>zip\<close>, and the archive it is told to write
  is the commit followed by \<open>.zip\<close>: under that very name for \<open>nodejs14.x\<close>, and as
  \<open>../\<close> and that name from inside the directory \<open>dist\<close> for \<open>go1.x\<close>. The repository
  name plays no part in it, and the upload that follows reads the file of that name.
\<close>

theorem archive_named_after_commit:
  assumes "Runtime cfg = ''go1.x'' \<or> Runtime cfg = ''nodejs14.x''"
    and "loadCreds w s = (Returned None, s1)"
    and "build_process (bld s1) ident cfg = Some p"
    and "b_run w (trace s1) p = None"
  shows "\<exists>z more rest.
      archive_process ident cfg = Some z
    \<and> trace (snd (LambdaBundle w ident (Some cfg) s)) = trace s1 @ [EvRun p, EvRun z] @ rest
    \<and> Command z = ''zip''
    \<and> WorkingDirectory z = (if Runtime cfg = ''go1.x'' then ''dist'' else [])
    \<and> Arguments z =
        ((if Runtime cfg = ''go1.x'' then ''../'' else []) @ Commit ident @ ''.zip'') # more
    \<and> archive_process (ident\<lparr>Repository := repo\<rparr>) cfg = Some z
    \<and> (b_run w (trace s1 @ [EvRun p]) z = None \<longrightarrow>
         rest = [EvRun (upload_process (bld s1) ident)])
    \<and> Arguments (upload_process (bld s1) ident) ! 2 = Commit ident @ ''.zip''"
proof -
  from archive_process_known [OF assms(1), of ident] obtain more where
    z: "archive_process ident cfg =
     Some \<lparr>WorkingDirectory = (if Runtime cfg = ''go1.x'' then ''dist'' else []),
           EnvironmentVariables = None,
           Command = ''zip'',
           Arguments = ((if Runtime cfg = ''go1.x'' then ''../'' else []) @ Commit ident @ ''.zip'')
                        # ''*'' # more\<rparr>" (is "_ = Some ?z")
    by blast
  have repo: "archive_process (ident\<lparr>Repository := repo\<rparr>) cfg = archive_process ident cfg"
    by (simp add: archive_process_def zipfile_def)
  have up: "Arguments (upload_process (bld s1) ident) ! 2 = Commit ident @ ''.zip''"
    by (simp add: upload_process_def zipfile_def)
  have "\<exists>rest. trace (snd (LambdaBundle w ident (Some cfg) s)) = trace s1 @ [EvRun p, EvRun ?z] @ rest
     \<and> (b_run w (trace s1 @ [EvRun p]) ?z = None \<longrightarrow>
         rest = [EvRun (upload_process (bld s1) ident)])"
    using assms(2-4) z
    by (auto simp: LambdaBundle_def bundle_steps_def call_run_def archive_and_upload_def
        log_event_def split: option.splits)
  with z repo up show ?thesis
    by (intro exI [of _ ?z] exI [of _ "''*'' # more"]) auto
qed

theorem archive_named_after_commit_witness:
  "(Runtime example_go = ''go1.x'' \<or> Runtime example_go = ''nodejs14.x'')
   \<and> loadCreds example_world example_exec
        = (Returned None, \<lparr>bld = loaded_builder, trace = load_events\<rparr>)
   \<and> build_process loaded_builder example_ident example_go
        = Some \<lparr>WorkingDirectory = ''/tmp/src'', EnvironmentVariables = Some loaded_env,
                 Command = ''make'', Arguments = [''build'']\<rparr>
   \<and> b_run example_world load_events
         \<lparr>WorkingDirectory = ''/tmp/src'', EnvironmentVariables = Some loaded_env,
          Command = ''make'', Arguments = [''build'']\<rparr> = None
   \<and> archive_process example_ident example_go
        = Some \<lparr>WorkingDirectory = ''dist'', EnvironmentVariables = None,
                 Command = ''zip'', Arguments = [''../abc123.zip'', ''*'']\<rparr>
   \<and> archive_process (example_ident\<lparr>Repository := ''other/name''\<rparr>) example_go
        = Some \<lparr>WorkingDirectory = ''dist'', EnvironmentVariables = None,
                 Command = ''zip'', Arguments = [''../abc123.zip'', ''*'']\<rparr>
   \<and> trace (snd (LambdaBundle example_world example_ident (Some example_go) example_exec))
        = load_events @
          [EvRun \<lparr>WorkingDirectory = ''/tmp/src'', EnvironmentVariables = Some loaded_env,
                  Command = ''make'', Arguments = [''build'']\<rparr>,
           EvRun \<lparr>WorkingDirectory = ''dist'', EnvironmentVariables = None,
                  Command = ''zip'', Arguments = [''../abc123.zip'', ''*'']\<rparr>,
           EvRun (upload_process loaded_builder example_ident)]
   \<and> Arguments (upload_process loaded_builder example_ident) ! 2 = ''abc123.zip''"
proof -
  let ?p = "\<lparr>WorkingDirectory = ''/tmp/src'', EnvironmentVariables = Some loaded_env,
             Command = ''make'', Arguments = [''build'']\<rparr>"
  let ?z = "\<lparr>WorkingDirectory = ''dist'', EnvironmentVariables = None,
             Command = ''zip'', Arguments = [''../abc123.zip'', ''*'']\<rparr>"
  have rt: "Runtime example_go = ''go1.x''"
    by (simp add: example_go_def)
  then have r: "Runtime example_go = ''go1.x'' \<or> Runtime example_go = ''nodejs14.x''" ..
  have l: "loadCreds example_world example_exec
        = (Returned None, \<lparr>bld = loaded_builder, trace = load_events\<rparr>)"
    using loadCreds_example_any [OF example_regions(1), of "[]"] by (simp add: example_exec_def)
  have p: "build_process (bld \<lparr>bld = loaded_builder, trace = load_events\<rparr>) example_ident example_go
             = Some ?p"
    by (simp add: build_process_def example_go_def example_ident_def cred_env_def
        loaded_builder_def loaded_env_def)
  have ok: "b_run example_world (trace \<lparr>bld = loaded_builder, trace = load_events\<rparr>) ?p = None"
    by (simp add: example_world_run)
  have z: "archive_process example_ident example_go = Some ?z"
    by (simp add: archive_process_def example_go_def example_ident_def zipfile_def)
  have zok: "b_run example_world (load_events @ [EvRun ?p]) ?z = None"
    by (simp add: example_world_run)
  from archive_named_after_commit [OF r l p ok, of "''other/name''"] obtain z' more rest where
    a: "archive_process example_ident example_go = Some z'"
      "trace (snd (LambdaBundle example_world example_ident (Some example_go) example_exec))
         = load_events @ [EvRun ?p, EvRun z'] @ rest"
      "archive_process (example_ident\<lparr>Repository := ''other/name''\<rparr>) example_go = Some z'"
      "b_run example_world (load_events @ [EvRun ?p]) z' = None \<longrightarrow>
         rest = [EvRun (upload_process loaded_builder example_ident)]"
      "Arguments (upload_process loaded_builder example_ident) ! 2 = Commit example_ident @ ''.zip''"
    by auto
  from a(1) z have z': "z' = ?z" by simp
  with a(4) zok have rest: "rest = [EvRun (upload_process loaded_builder example_ident)]"
    by simp
  have c: "Commit example_ident = ''abc123''"
    by (simp add: example_ident_def)
  from a(2,3,5) z z' rest c r l p ok show ?thesis by simp
qed


subsection \<open>Splitting the build command\<close>

lemma strings_Join_space_Cons:
  "strings_Join_space ((c # t) # ts) = c # strings_Join_space (t # ts)"
  by (cases ts) simp_all

lemma strings_Join_Split_space: "strings_Join_space (strings_Split_space s) = s"
proof (induction s)
  case Nil
  then show ?case by simp
next
  case (Cons c cs)
  obtain t ts where t: "strings_Split_space cs = t # ts"
    using strings_Split_space_nonempty [of cs] by (cases "strings_Split_space cs") auto
  with Cons show ?case
    by (simp add: strings_Join_space_Cons)
qed

lemma strings_Split_space_no_space:
  "t \<in> set (strings_Split_space s) \<Longrightarrow> CHR '' '' \<notin> set t"
  by (induction s arbitrary: t) (auto split: if_splits list.splits)

lemma split_where_whitespace:
  "\<forall>c\<in>set s. is_whitespace c \<longrightarrow> c = CHR '' '' \<Longrightarrow>
   split_where is_whitespace s = strings_Split_space s"
  by (induction s) (auto simp: is_whitespace_def)

lemma whitespace_tokens_agree:
  assumes "\<forall>c\<in>set s. is_whitespace c \<longrightarrow> c = CHR '' ''"
    and "[] \<notin> set (strings_Split_space s)"
  shows "whitespace_tokens s = strings_Split_space s"
proof -
  from assms(2) have "filter (\<lambda>t. t \<noteq> []) (strings_Split_space s) = strings_Split_space s"
    by (intro filter_True) auto
  with split_where_whitespace [OF assms(1)] show ?thesis
    by (simp add: whitespace_tokens_def)
qed


text \<open>
  Claim C6, as the code has it. Once the credentials are loaded, the first process of
  a function-bundle task is the build command, cut at every single space character:
  command and arguments are the pieces of \<open>strings.Split\<close>, so joining them with spaces
  gives the configured string back and no piece holds a space, while a piece is empty
  where spaces are adjacent, leading or trailing. Where the string has no whitespace
  but the space and no piece is empty, the pieces are the whitespace-separated tokens.
  The process runs in the source directory with the credentials and the token in its
  environment.
\<close>

theorem build_command_split_at_spaces:
  assumes "loadCreds w s = (Returned None, s1)"
  shows "\<exists>p rest.
      build_process (bld s1) ident cfg = Some p
    \<and> trace (snd (LambdaBundle w ident (Some cfg) s)) = trace s1 @ EvRun p # rest
    \<and> Command p # Arguments p = strings_Split_space (BuildCommand cfg)
    \<and> strings_Join_space (Command p # Arguments p) = BuildCommand cfg
    \<and> (\<forall>t\<in>set (Command p # Arguments p). CHR '' '' \<notin> set t)
    \<and> ((\<forall>c\<in>set (BuildCommand cfg). is_whitespace c \<longrightarrow> c = CHR '' '')
         \<and> [] \<notin> set (strings_Split_space (BuildCommand cfg)) \<longrightarrow>
       Command p # Arguments p = whitespace_tokens (BuildCommand cfg))
    \<and> WorkingDirectory p = Directory ident
    \<and> EnvironmentVariables p = Some (cred_env (bld s1))"
proof -
  let ?p = "\<lparr>WorkingDirectory = Directory ident,
           EnvironmentVariables = Some (cred_env (bld s1)),
           Command = hd (strings_Split_space (BuildCommand cfg)),
           Arguments = tl (strings_Split_space (BuildCommand cfg))\<rparr>"
  have p: "build_process (bld s1) ident cfg = Some ?p"
    by (rule build_process_Some)
  have sp: "Command ?p # Arguments ?p = strings_Split_space (BuildCommand cfg)"
    using strings_Split_space_nonempty [of "BuildCommand cfg"] by simp
  from archive_and_upload_trace [of w ident cfg "log_event (EvRun ?p) s1"] obtain evs where
    "trace (snd (archive_and_upload w ident cfg (log_event (EvRun ?p) s1))) = trace s1 @ EvRun ?p # evs"
    by auto
  then have tr: "\<exists>rest. trace (snd (LambdaBundle w ident (Some cfg) s)) = trace s1 @ EvRun ?p # rest"
    using assms p
    by (cases "b_run w (trace s1) ?p") (auto simp: LambdaBundle_def bundle_steps_def call_run_def)
  have j: "strings_Join_space (Command ?p # Arguments ?p) = BuildCommand cfg"
    unfolding sp by (rule strings_Join_Split_space)
  have ns: "\<forall>t\<in>set (Command ?p # Arguments ?p). CHR '' '' \<notin> set t"
    unfolding sp by (auto dest: strings_Split_space_no_space)
  have ag: "(\<forall>c\<in>set (BuildCommand cfg). is_whitespace c \<longrightarrow> c = CHR '' '')
         \<and> [] \<notin> set (strings_Split_space (BuildCommand cfg)) \<longrightarrow>
       Command ?p # Arguments ?p = whitespace_tokens (BuildCommand cfg)"
    unfolding sp by (auto simp: whitespace_tokens_agree)
  from tr obtain rest where
    "trace (snd (LambdaBundle w ident (Some cfg) s)) = trace s1 @ EvRun ?p # rest" ..
  with p sp j ns ag show ?thesis
    by (intro exI [of _ ?p] exI [of _ rest]) simp
qed

theorem build_command_split_at_spaces_witness:
  "loadCreds example_world example_exec
     = (Returned None, \<lparr>bld = loaded_builder, trace = load_events\<rparr>)
   \<and> [] \<notin> set (strings_Split_space (BuildCommand example_go))
   \<and> (\<exists>p rest.
        build_process loaded_builder example_ident example_go = Some p
      \<and> trace (snd (LambdaBundle example_world example_ident (Some example_go) example_exec))
          = load_events @ EvRun p # rest
      \<and> Command p # Arguments p = [''make'', ''build'']
      \<and> Command p # Arguments p = whitespace_tokens ''make build''
      \<and> WorkingDirectory p = ''/tmp/src''
      \<and> EnvironmentVariables p = Some loaded_env)"
proof -
  have l: "loadCreds example_world example_exec
        = (Returned None, \<lparr>bld = loaded_builder, trace = load_events\<rparr>)"
    using loadCreds_example_any [OF example_regions(1), of "[]"] by (simp add: example_exec_def)
  have c: "BuildCommand example_go = ''make build''"
    by (simp add: example_go_def)
  have ws: "\<forall>c\<in>set (BuildCommand example_go). is_whitespace c \<longrightarrow> c = CHR '' ''"
    by (simp add: c is_whitespace_def)
  have ne: "[] \<notin> set (strings_Split_space (BuildCommand example_go))"
    by (simp add: c)
  have sp: "strings_Split_space ''make build'' = [''make'', ''build'']"
    by simp
  have d: "Directory example_ident = ''/tmp/src''"
    by (simp add: example_ident_def)
  have e: "cred_env loaded_builder = loaded_env"
    by (simp add: cred_env_def loaded_builder_def loaded_env_def)
  from build_command_split_at_spaces [OF l, of example_ident example_go] ws ne
  have "\<exists>p rest.
        build_process loaded_builder example_ident example_go = Some p
      \<and> trace (snd (LambdaBundle example_world example_ident (Some example_go) example_exec))
          = load_events @ EvRun p # rest
      \<and> Command p # Arguments p = [''make'', ''build'']
      \<and> Command p # Arguments p = whitespace_tokens ''make build''
      \<and> WorkingDirectory p = ''/tmp/src''
      \<and> EnvironmentVariables p = Some loaded_env"
    unfolding c sp d by (elim exE conjE) (intro exI conjI, simp_all add: e)
  with l ne show ?thesis by blast
qed

text \<open>
  Claim C6, as it is stated, fails: for the build command \<open>make\<close>, two spaces, \<open>build\<close>
  the whitespace-separated tokens are \<open>make\<close> and \<open>build\<close>, but the process is given the
  arguments the empty string and \<open>build\<close>.
\<close>

theorem build_command_double_space:
  "build_process loaded_builder example_ident (example_go\<lparr>BuildCommand := ''make  build''\<rparr>)
     = Some \<lparr>WorkingDirectory = ''/tmp/src'', EnvironmentVariables = Some loaded_env,
             Command = ''make'', Arguments = [[], ''build'']\<rparr>
   \<and> whitespace_tokens (BuildCommand (example_go\<lparr>BuildCommand := ''make  build''\<rparr>))
     = [''make'', ''build'']"
  by (simp add: build_process_def example_go_def whitespace_tokens_def is_whitespace_def
      example_ident_def cred_env_def loaded_builder_def loaded_env_def)

subsection \<open>One failing fetch\<close>

lemma errgroup_run_keys:
  "\<exists>rest. fs = map fst (fst (errgroup_run w fs s)) @ rest"
proof (induction fs arbitrary: s)
  case Nil
  then show ?case by simp
next
  case (Cons f fs)
  obtain r s1 where g: "goroutine w f s = (r, s1)"
    by (cases "goroutine w f s")
  from Cons [of s1] obtain rest where "fs = map fst (fst (errgroup_run w fs s1)) @ rest" ..
  with g show ?case
    by (cases r) (auto split: prod.splits)
qed

lemma errgroup_Wait_no_panic:
  "Panicked \<notin> snd ` set rs \<Longrightarrow> errgroup_Wait rs \<noteq> Panicked"
  by (induction rs rule: errgroup_Wait.induct) (auto split: outcome.splits)

lemma errgroup_Wait_single_error:
  "\<forall>(g, r)\<in>set rs. r = (if g = f then Returned (Some err) else Returned None) \<Longrightarrow>
   f \<in> fst ` set rs \<Longrightarrow> errgroup_Wait rs = Returned (Some err)"
proof (induction rs rule: errgroup_Wait.induct)
  case 1
  then show ?case by simp
next
  case (2 g rs)
  then show ?case by (auto split: if_splits)
next
  case (3 g rs)
  then show ?case by (auto split: if_splits)
next
  case (4 g e rs)
  then have "Panicked \<notin> snd ` set rs" by (auto split: if_splits)
  from errgroup_Wait_no_panic [OF this] 4 show ?case
    by (cases "errgroup_Wait rs") (auto split: if_splits)
qed

lemma errgroup_run_complete:
  "Panicked \<notin> snd ` set (fst (errgroup_run w fs s)) \<Longrightarrow>
   map fst (fst (errgroup_run w fs s)) = fs"
proof (induction fs arbitrary: s)
  case Nil
  then show ?case by simp
next
  case (Cons f fs)
  obtain r s1 where g: "goroutine w f s = (r, s1)"
    by (cases "goroutine w f s")
  obtain rs s2 where e: "errgroup_run w fs s1 = (rs, s2)"
    by (cases "errgroup_run w fs s1")
  show ?case
  proof (cases r)
    case Panicked
    with Cons.prems g show ?thesis by simp
  next
    case (Returned x)
    with Cons.prems g e have "Panicked \<notin> snd ` set (fst (errgroup_run w fs s1))"
      by simp
    from Cons.IH [OF this] g e Returned show ?thesis by simp
  qed
qed

lemma goroutine_first_call:
  "\<exists>evs. trace (snd (goroutine w f s)) = trace s @ evs \<and>
     (case f of GitHubToken \<Rightarrow> EvGetSecretValue secrets_Token
      | AWSCredentials \<Rightarrow> EvLoadDefaultConfig | AWSCaller \<Rightarrow> EvGetCallerIdentity) \<in> set evs"
  by (cases f)
    (auto simp: loadGitHubCreds_def loadAWSCreds_def lookupAWSCaller_def Let_def
      split: sum.splits option.splits)

lemma errgroup_run_first_calls:
  "Panicked \<notin> snd ` set (fst (errgroup_run w fs s)) \<Longrightarrow>
   \<exists>evs. trace (snd (errgroup_run w fs s)) = trace s @ evs \<and>
     (\<forall>f\<in>set fs. (case f of GitHubToken \<Rightarrow> EvGetSecretValue secrets_Token
      | AWSCredentials \<Rightarrow> EvLoadDefaultConfig | AWSCaller \<Rightarrow> EvGetCallerIdentity) \<in> set evs)"
proof (induction fs arbitrary: s)
  case Nil
  then show ?case by simp
next
  case (Cons f fs)
  obtain r s1 where g: "goroutine w f s = (r, s1)"
    by (cases "goroutine w f s")
  obtain rs s2 where e: "errgroup_run w fs s1 = (rs, s2)"
    by (cases "errgroup_run w fs s1")
  from goroutine_first_call [of w f s] g obtain evs where
    evs: "trace s1 = trace s @ evs"
      "(case f of GitHubToken \<Rightarrow> EvGetSecretValue secrets_Token
      | AWSCredentials \<Rightarrow> EvLoadDefaultConfig | AWSCaller \<Rightarrow> EvGetCallerIdentity) \<in> set evs"
    by auto
  show ?case
  proof (cases r)
    case Panicked
    with Cons.prems g show ?thesis by simp
  next
    case (Returned x)
    with Cons.prems g e have "Panicked \<notin> snd ` set (fst (errgroup_run w fs s1))"
      by simp
    from Cons.IH [OF this] e obtain evs' where
      evs': "trace s2 = trace s1 @ evs'"
        "\<forall>f\<in>set fs. (case f of GitHubToken \<Rightarrow> EvGetSecretValue secrets_Token
        | AWSCredentials \<Rightarrow> EvLoadDefaultConfig | AWSCaller \<Rightarrow> EvGetCallerIdentity) \<in> set evs'"
      by auto
    from g e Returned evs evs' show ?thesis
      by (intro exI [of _ "evs @ evs'"]) auto
  qed
qed

lemma length_order_of: "length (order_of sc) = 3"
  by (cases sc) simp_all

lemma loadCreds_waits_for_all:
  assumes "Panicked \<notin> snd ` set (fetch_results w s)"
  shows "map fst (fetch_results w s) = order_of (schedule w (trace s))"
    and "length (fetch_results w s) = 3"
    and "\<exists>evs. trace (snd (loadCreds w s)) = trace s @ evs
          \<and> EvGetSecretValue secrets_Token \<in> set evs \<and> EvLoadDefaultConfig \<in> set evs
          \<and> EvGetCallerIdentity \<in> set evs"
proof -
  let ?fs = "order_of (schedule w (trace s))"
  from assms have np: "Panicked \<notin> snd ` set (fst (errgroup_run w ?fs s))"
    by (simp add: fetch_results_def)
  from errgroup_run_complete [OF np]
  show k: "map fst (fetch_results w s) = ?fs"
    by (simp add: fetch_results_def)
  from arg_cong [OF k, of length] show "length (fetch_results w s) = 3"
    by (simp add: length_order_of)
  have "snd (loadCreds w s) = snd (errgroup_run w ?fs s)"
    by (simp add: loadCreds_def split: prod.splits)
  with errgroup_run_first_calls [OF np]
  show "\<exists>evs. trace (snd (loadCreds w s)) = trace s @ evs
          \<and> EvGetSecretValue secrets_Token \<in> set evs \<and> EvLoadDefaultConfig \<in> set evs
          \<and> EvGetCallerIdentity \<in> set evs"
    by (auto simp: set_order_of)
qed

text \<open>
  Claim C4. Whatever the order in which the three fetches complete, and whatever errors
  they return: unless one of them panics, all three run to completion before \<open>loadCreds\<close>
  returns, and each has made its call. When one fetch returns an error and no other
  fetch that ran returned anything but nil, \<open>loadCreds\<close> returns that very error, not nil,
  and both siblings did run and return nil, also when the failing fetch completed
  before them.
\<close>

theorem loadCreds_single_failure:
  "(Panicked \<notin> snd ` set (fetch_results w s) \<longrightarrow>
      map fst (fetch_results w s) = order_of (schedule w (trace s))
    \<and> length (fetch_results w s) = 3
    \<and> (\<exists>evs. trace (snd (loadCreds w s)) = trace s @ evs
          \<and> EvGetSecretValue secrets_Token \<in> set evs \<and> EvLoadDefaultConfig \<in> set evs
          \<and> EvGetCallerIdentity \<in> set evs))
   \<and> ((f, Returned (Some err)) \<in> set (fetch_results w s)
       \<and> (\<forall>g r. (g, r) \<in> set (fetch_results w s) \<and> g \<noteq> f \<longrightarrow> r = Returned None) \<longrightarrow>
      fst (loadCreds w s) = Returned (Some err)
    \<and> map fst (fetch_results w s) = order_of (schedule w (trace s))
    \<and> (\<forall>g. g \<noteq> f \<longrightarrow> (g, Returned None) \<in> set (fetch_results w s)))"
proof -
  let ?fs = "order_of (schedule w (trace s))"
  let ?rs = "fetch_results w s"
  have all: "Panicked \<notin> snd ` set ?rs \<longrightarrow>
      map fst ?rs = ?fs \<and> length ?rs = 3
    \<and> (\<exists>evs. trace (snd (loadCreds w s)) = trace s @ evs
          \<and> EvGetSecretValue secrets_Token \<in> set evs \<and> EvLoadDefaultConfig \<in> set evs
          \<and> EvGetCallerIdentity \<in> set evs)"
    using loadCreds_waits_for_all [of w s] by blast
  have single: "fst (loadCreds w s) = Returned (Some err) \<and> map fst ?rs = ?fs
      \<and> (\<forall>g. g \<noteq> f \<longrightarrow> (g, Returned None) \<in> set ?rs)"
    if a: "(f, Returned (Some err)) \<in> set ?rs"
      and b: "\<forall>g r. (g, r) \<in> set ?rs \<and> g \<noteq> f \<longrightarrow> r = Returned None"
  proof -
    from errgroup_run_keys [of ?fs w s] obtain rest where
      rest: "?fs = map fst ?rs @ rest"
      by (auto simp: fetch_results_def)
    with distinct_order_of [of "schedule w (trace s)"] have dk: "distinct (map fst ?rs)"
      by simp
    have one: "r = (if g = f then Returned (Some err) else Returned None)"
      if "(g, r) \<in> set ?rs" for g r
      using that a b eq_key_imp_eq_value [OF dk] by (cases "g = f") auto
    have np: "Panicked \<notin> snd ` set ?rs"
    proof
      assume "Panicked \<in> snd ` set ?rs"
      then obtain g where "(g, Panicked) \<in> set ?rs" by force
      from one [OF this] show False by (simp split: if_splits)
    qed
    from loadCreds_waits_for_all(1) [OF np]
    have keys: "map fst ?rs = ?fs" .
    from one have "\<forall>(g, r)\<in>set ?rs. r = (if g = f then Returned (Some err) else Returned None)"
      by auto
    moreover from a have "f \<in> fst ` set ?rs" by force
    ultimately have "errgroup_Wait ?rs = Returned (Some err)"
      by (rule errgroup_Wait_single_error)
    moreover have "fst (loadCreds w s) = errgroup_Wait ?rs"
      by (simp add: loadCreds_def fetch_results_def split: prod.splits)
    ultimately have res: "fst (loadCreds w s) = Returned (Some err)" by simp
    have sib: "(g, Returned None) \<in> set ?rs" if gf: "g \<noteq> f" for g
    proof -
      have "g \<in> set ?fs" by (cases g) (simp_all add: set_order_of)
      with keys have "g \<in> fst ` set ?rs" by (metis set_map)
      then obtain r where r: "(g, r) \<in> set ?rs" by force
      from one [OF r] gf r show ?thesis by simp
    qed
    from res keys sib show ?thesis by blast
  qed
  from all single show ?thesis by blast
qed

lemma fetch_results_identity_fails:
  "fetch_results
     (example_world\<lparr>sts_GetCallerIdentity := \<lambda>tr. Inl (New ''AccessDenied''),
                    schedule := \<lambda>tr. CGA\<rparr>) example_exec
   = [(AWSCaller, Returned (Some (Wrap (New ''AccessDenied'') ''failed to get AWS identity''))),
      (GitHubToken, Returned None), (AWSCredentials, Returned None)]"
  by (simp add: fetch_results_def example_world_def loadGitHubCreds_def loadAWSCreds_def
      lookupAWSCaller_def log_event_def)

theorem loadCreds_single_failure_witness:
  "(AWSCaller, Returned (Some (Wrap (New ''AccessDenied'') ''failed to get AWS identity'')))
     \<in> set (fetch_results
          (example_world\<lparr>sts_GetCallerIdentity := \<lambda>tr. Inl (New ''AccessDenied''),
                         schedule := \<lambda>tr. CGA\<rparr>) example_exec)
   \<and> (GitHubToken, Returned None)
     \<in> set (fetch_results
          (example_world\<lparr>sts_GetCallerIdentity := \<lambda>tr. Inl (New ''AccessDenied''),
                         schedule := \<lambda>tr. CGA\<rparr>) example_exec)
   \<and> (AWSCredentials, Returned None)
     \<in> set (fetch_results
          (example_world\<lparr>sts_GetCallerIdentity := \<lambda>tr. Inl (New ''AccessDenied''),
                         schedule := \<lambda>tr. CGA\<rparr>) example_exec)
   \<and> fst (loadCreds
          (example_world\<lparr>sts_GetCallerIdentity := \<lambda>tr. Inl (New ''AccessDenied''),
                         schedule := \<lambda>tr. CGA\<rparr>) example_exec)
       = Returned (Some (Wrap (New ''AccessDenied'') ''failed to get AWS identity''))
   \<and> map fst (fetch_results
          (example_world\<lparr>sts_GetCallerIdentity := \<lambda>tr. Inl (New ''AccessDenied''),
                         schedule := \<lambda>tr. CGA\<rparr>) example_exec)
       = [AWSCaller, GitHubToken, AWSCredentials]
   \<and> EvGetSecretValue secrets_Token
     \<in> set (trace (snd (loadCreds
          (example_world\<lparr>sts_GetCallerIdentity := \<lambda>tr. Inl (New ''AccessDenied''),
                         schedule := \<lambda>tr. CGA\<rparr>) example_exec)))
   \<and> EvLoadDefaultConfig
     \<in> set (trace (snd (loadCreds
          (example_world\<lparr>sts_GetCallerIdentity := \<lambda>tr. Inl (New ''AccessDenied''),
                         schedule := \<lambda>tr. CGA\<rparr>) example_exec)))"
proof -
  let ?w = "example_world\<lparr>sts_GetCallerIdentity := \<lambda>tr. Inl (New ''AccessDenied''),
                         schedule := \<lambda>tr. CGA\<rparr>"
  let ?err = "Wrap (New ''AccessDenied'') ''failed to get AWS identity''"
  have a: "(AWSCaller, Returned (Some ?err)) \<in> set (fetch_results ?w example_exec)"
    by (simp add: fetch_results_identity_fails)
  have b: "\<forall>g r. (g, r) \<in> set (fetch_results ?w example_exec) \<and> g \<noteq> AWSCaller
             \<longrightarrow> r = Returned None"
    by (auto simp: fetch_results_identity_fails)
  have np: "Panicked \<notin> snd ` set (fetch_results ?w example_exec)"
    by (simp add: fetch_results_identity_fails)
  have tr: "trace example_exec = []"
    by (simp add: example_exec_def)
  from loadCreds_single_failure [of ?w example_exec AWSCaller ?err] a b np
  have r: "fst (loadCreds ?w example_exec) = Returned (Some ?err)"
    and k: "map fst (fetch_results ?w example_exec) = order_of (schedule ?w (trace example_exec))"
    and s1: "(GitHubToken, Returned None) \<in> set (fetch_results ?w example_exec)"
    and s2: "(AWSCredentials, Returned None) \<in> set (fetch_results ?w example_exec)"
    and ev: "\<exists>evs. trace (snd (loadCreds ?w example_exec)) = trace example_exec @ evs
          \<and> EvGetSecretValue secrets_Token \<in> set evs \<and> EvLoadDefaultConfig \<in> set evs
          \<and> EvGetCallerIdentity \<in> set evs"
    by blast+
  from k have k': "map fst (fetch_results ?w example_exec) = [AWSCaller, GitHubToken, AWSCredentials]"
    by simp
  from ev tr have "EvGetSecretValue secrets_Token \<in> set (trace (snd (loadCreds ?w example_exec)))"
    and "EvLoadDefaultConfig \<in> set (trace (snd (loadCreds ?w example_exec)))"
    by auto
  with a r k' s1 s2 show ?thesis by blast
qed

end
